theory Spec2Isabelle
  imports Main "HOL-Library.Sublist"
begin

section \<open>JavaScript values and strings\<close>

text \<open>
  The client handles values produced by \<open>JSON.parse\<close> and by property reads on them.
  \<open>jsval\<close> is the JSON value type extended with \<open>undefined\<close> (the result of reading a
  missing property, and the content of an unset array slot). Numbers are integers; an
  object is an association list in which the first binding of a key counts.
  Strings are lists of characters, which stand for the code units below 256. Among these
  the white space that \<open>trim\<close> and \<open>\s\<close> recognise is the tab, the line feed, the vertical
  tab, the form feed, the carriage return, the space and the no-break space.
\<close>

datatype jsval =
    JUndefined
  | JNull
  | JBool bool
  | JNum int
  | JStr string
  | JArr "jsval list"
  | JObj "(string \<times> jsval) list"

text \<open>JavaScript's \<open>ToBoolean\<close>: what \<open>if (v)\<close>, \<open>!v\<close>, \<open>a || b\<close> and \<open>a && b\<close> test.\<close>

fun truthy :: "jsval \<Rightarrow> bool" where
  "truthy JUndefined = False"
| "truthy JNull = False"
| "truthy (JBool b) = b"
| "truthy (JNum n) = (n \<noteq> 0)"
| "truthy (JStr s) = (s \<noteq> [])"
| "truthy (JArr xs) = True"
| "truthy (JObj kvs) = True"

text \<open>Reading the property \<open>k\<close> of a value that is neither \<open>null\<close> nor \<open>undefined\<close>.\<close>

fun get_prop :: "jsval \<Rightarrow> string \<Rightarrow> jsval" where
  "get_prop (JObj kvs) k = (case map_of kvs k of Some v \<Rightarrow> v | None \<Rightarrow> JUndefined)"
| "get_prop v k = JUndefined"

definition is_space :: "char \<Rightarrow> bool" where
  "is_space c = (c \<in> set [CHR 0x09, CHR 0x0A, CHR 0x0B, CHR 0x0C, CHR 0x0D, CHR 0x20, CHR 0xA0])"

text \<open>\<open>String.prototype.trim\<close>.\<close>

definition js_trim :: "string \<Rightarrow> string" where
  "js_trim s = rev (dropWhile is_space (rev (dropWhile is_space s)))"

text \<open>The positions at which \<open>pat\<close> occurs in \<open>s\<close>, in increasing order.\<close>

fun occurrences_from :: "nat \<Rightarrow> 'a list \<Rightarrow> 'a list \<Rightarrow> nat list" where
  "occurrences_from i [] pat = (if pat = [] then [i] else [])"
| "occurrences_from i (c # s) pat =
     (if prefix pat (c # s) then i # occurrences_from (Suc i) s pat
      else occurrences_from (Suc i) s pat)"

definition occurrences :: "'a list \<Rightarrow> 'a list \<Rightarrow> nat list" where
  "occurrences s pat = occurrences_from 0 s pat"

text \<open>\<open>s.indexOf(pat)\<close> and \<open>s.lastIndexOf(pat)\<close>: \<open>-1\<close> when \<open>pat\<close> does not occur.\<close>

definition js_indexOf :: "'a list \<Rightarrow> 'a list \<Rightarrow> int" where
  "js_indexOf s pat = (case occurrences s pat of [] \<Rightarrow> - 1 | i # is \<Rightarrow> int i)"

definition js_lastIndexOf :: "'a list \<Rightarrow> 'a list \<Rightarrow> int" where
  "js_lastIndexOf s pat = (case occurrences s pat of [] \<Rightarrow> - 1 | i # is \<Rightarrow> int (last (i # is)))"

definition js_includes :: "'a list \<Rightarrow> 'a list \<Rightarrow> bool" where
  "js_includes s pat = (js_indexOf s pat \<noteq> - 1)"

text \<open>
  \<open>s.slice(start, end)\<close> on strings and arrays: a negative index counts from the end, every
  index is clamped to the length, and \<open>end\<close> may be left out.
\<close>

definition slice_index :: "nat \<Rightarrow> int \<Rightarrow> nat" where
  "slice_index len k = (if k < 0 then nat (max (int len + k) 0) else min (nat k) len)"

definition js_slice :: "'a list \<Rightarrow> int \<Rightarrow> int option \<Rightarrow> 'a list" where
  "js_slice s start end_opt =
     (let from = slice_index (length s) start;
          upto = (case end_opt of None \<Rightarrow> length s | Some e \<Rightarrow> slice_index (length s) e)
      in take (upto - from) (drop from s))"

text \<open>
  \<open>s.split(sep)\<close>: the pieces between the occurrences of \<open>sep\<close>, found from left to right
  without overlap. \<open>cur\<close> is the piece read so far.
\<close>

function js_split_from :: "'a list \<Rightarrow> 'a list \<Rightarrow> 'a list \<Rightarrow> 'a list list" where
  "js_split_from sep cur s =
     (if s = [] then [cur]
      else if sep \<noteq> [] \<and> prefix sep s then cur # js_split_from sep [] (drop (length sep) s)
      else js_split_from sep (cur @ [hd s]) (tl s))"
  by pat_completeness auto
termination
  by (relation "measure (\<lambda>(sep, cur, s). length s)") auto

declare js_split_from.simps [simp del]

definition js_split :: "'a list \<Rightarrow> 'a list \<Rightarrow> 'a list list" where
  "js_split s sep = (if sep = [] then map (\<lambda>c. [c]) s else js_split_from sep [] s)"


text \<open>Decimal notation of a number, as a template literal prints it.\<close>

definition digit_char :: "nat \<Rightarrow> char" where
  "digit_char d = char_of (d + 48)"

function string_of_nat :: "nat \<Rightarrow> string" where
  "string_of_nat n =
     (if 10 \<le> n then string_of_nat (n div 10) @ [digit_char (n mod 10)] else [digit_char n])"
  by pat_completeness auto
termination
  by (relation "measure (\<lambda>n. n)") auto

declare string_of_nat.simps [simp del]

definition string_of_int :: "int \<Rightarrow> string" where
  "string_of_int i = (if i < 0 then CHR ''-'' # string_of_nat (nat (- i)) else string_of_nat (nat i))"

section \<open>Responses, errors and results\<close>

text \<open>
  The body of a response, as \<open>requestStream\<close> looks at it: \<open>null\<close>; an object with neither
  \<open>getReader\<close> nor an async iterator; or a readable body, given by the decoded text chunks
  that \<open>getStreamBodyIterator\<close> yields and, when reading fails after them, the message of
  the error.
\<close>

datatype body = NullBody | OpaqueBody | StreamBody "string list" "string option"

text \<open>
  A response of the transport. \<open>content_type\<close> is \<open>headers.get("content-type")\<close>;
  \<open>json_body\<close> is what \<open>response.json()\<close> resolves to, or the message it rejects with.
\<close>

record response =
  status :: int
  statusText :: string
  ok :: bool
  content_type :: "string option"
  json_body :: "string + jsval"
  body :: body

text \<open>A thrown \<open>Error\<close>: its message and its \<open>cause\<close> option.\<close>

datatype cause = NoCause | ResponseCause response | GraphQLErrorsCause "jsval list"

datatype js_error = Error string cause

text \<open>The message of a \<open>TypeError\<close> is chosen by the JavaScript engine; this text stands for it.\<close>

definition TypeError :: js_error where
  "TypeError = Error ''TypeError'' NoCause"

record response_errors =
  networkStatusCode :: "int option"
  message :: "string option"
  graphQLErrors :: "jsval option"
  err_response :: "response option"

text \<open>\<open>ClientResponse\<close>: a field is \<open>None\<close> when the object has no such key.\<close>

record client_response =
  data :: "jsval option"
  extensions :: "jsval option"
  errors :: "response_errors option"

text \<open>\<open>ClientStreamResponseIteratorObject\<close>: the key \<open>hasNext\<close> is always there.\<close>

record client_stream_response = client_response +
  hasNext :: jsval

text \<open>
  Running a piece of code ends with a thrown error or with a value: \<open>js_error + 'a\<close>, the
  error on the left. What the caller of a function sees is a completion: the call throws,
  or it returns a value. For an async function the value is a promise, which is rejected
  with an error or fulfilled with a value.
\<close>

datatype 'a promise = Rejected js_error | Fulfilled 'a

datatype 'a completion = Throws js_error | Returns 'a

text \<open>
  A call of an \<open>async\<close> function never throws: it returns a promise, which is rejected with
  the error that the body throws, or fulfilled with the value that the body returns. When
  the body returns a promise, the promise of the call settles as that one does.
\<close>

definition async :: "js_error + 'a \<Rightarrow> 'a promise completion" where
  "async run = Returns (case run of Inl e \<Rightarrow> Rejected e | Inr v \<Rightarrow> Fulfilled v)"

text \<open>
  \<open>await f(...)\<close> inside a body: an error that the call throws, or that its promise is
  rejected with, is thrown at the \<open>await\<close>; otherwise the value of the promise is the result.
\<close>

definition await :: "'a promise completion \<Rightarrow> js_error + 'a" where
  "await c =
     (case c of
        Throws e \<Rightarrow> Inl e
      | Returns (Rejected e) \<Rightarrow> Inl e
      | Returns (Fulfilled v) \<Rightarrow> Inr v)"

text \<open>
  An async iterator is given by the values it yields and, when it throws afterwards, the
  error.
\<close>

type_synonym 'a async_iteration = "'a list \<times> js_error option"

section \<open>Constants and utilities\<close>

text \<open>
  The files \<open>constants.ts\<close>, \<open>utilities.ts\<close> and \<open>http-fetch.ts\<close> are not among the sources.
  What \<open>graphql-client.ts\<close> imports from them is modelled from the spec, with the test
  suite as a second witness of the texts.
\<close>

text \<open>
  Modelled from the spec: the constant \<open>CLIENT\<close> of \<open>constants.ts\<close>, the label that every
  message begins with.
\<close>

definition CLIENT :: string where
  "CLIENT = ''GraphQL Client''"

text \<open>
  Modelled from the spec: the constant \<open>GQL_API_ERROR\<close> of \<open>constants.ts\<close>, the message for a
  payload with errors.
\<close>

definition GQL_API_ERROR :: string where
  "GQL_API_ERROR = ''An error occurred while fetching from the API. Review 'graphQLErrors' for details.''"

text \<open>
  Modelled from the spec: the constant \<open>UNEXPECTED_CONTENT_TYPE_ERROR\<close> of \<open>constants.ts\<close>,
  the text before the content type in the message for an unexpected content type.
\<close>

definition UNEXPECTED_CONTENT_TYPE_ERROR :: string where
  "UNEXPECTED_CONTENT_TYPE_ERROR = ''Response returned unexpected Content-Type:''"

text \<open>
  Modelled from the spec: the constant \<open>NO_DATA_OR_ERRORS_ERROR\<close> of \<open>constants.ts\<close>, the
  message for a payload with neither data nor errors.
\<close>

definition NO_DATA_OR_ERRORS_ERROR :: string where
  "NO_DATA_OR_ERRORS_ERROR = ''An unknown error has occurred. The API did not return a data object or any errors in its response.''"

text \<open>
  Modelled from the spec: the entry \<open>json\<close> of the constant \<open>CONTENT_TYPES\<close> of
  \<open>constants.ts\<close>.
\<close>

definition CONTENT_TYPES_json :: string where
  "CONTENT_TYPES_json = ''application/json''"

text \<open>
  Modelled from the spec: the entry \<open>multipart\<close> of the constant \<open>CONTENT_TYPES\<close> of
  \<open>constants.ts\<close>.
\<close>

definition CONTENT_TYPES_multipart :: string where
  "CONTENT_TYPES_multipart = ''multipart/mixed''"

text \<open>
  Modelled from the spec: the least value of \<open>retries\<close> that \<open>validateRetries\<close> accepts.
\<close>

definition MIN_RETRIES :: int where
  "MIN_RETRIES = 0"

text \<open>
  Modelled from the spec: the greatest value of \<open>retries\<close> that \<open>validateRetries\<close> accepts.
\<close>

definition MAX_RETRIES :: int where
  "MAX_RETRIES = 3"

text \<open>A word character of a regular expression: a letter, a digit or the underscore.\<close>

definition is_word_char :: "char \<Rightarrow> bool" where
  "is_word_char c =
     (let n = (of_char c :: nat)
      in (48 \<le> n \<and> n \<le> 57) \<or> (65 \<le> n \<and> n \<le> 90) \<or> n = 95 \<or> (97 \<le> n \<and> n \<le> 122))"

text \<open>
  Modelled from the spec: the letters of \<open>DEFER_OPERATION_REGEX\<close>, each in lower and upper
  case (the expression ignores case).
\<close>

definition defer_letters :: "(char \<times> char) list" where
  "defer_letters =
     [(CHR ''d'', CHR ''D''), (CHR ''e'', CHR ''E''), (CHR ''f'', CHR ''F''),
      (CHR ''e'', CHR ''E''), (CHR ''r'', CHR ''R'')]"

text \<open>
  Modelled from the spec: \<open>DEFER_OPERATION_REGEX\<close> of \<open>constants.ts\<close>, which the spec gives as
  \<open>/@\s*defer\b/i\<close>, matched at the start of \<open>s\<close>: an \<open>@\<close>, any white space, the letters of
  \<open>defer\<close> in either case, and then a word boundary (the end of the string, or a character
  that is no word character).
\<close>

definition defer_match_here :: "string \<Rightarrow> bool" where
  "defer_match_here s =
     (case s of
        [] \<Rightarrow> False
      | c # rest \<Rightarrow>
          c = CHR ''@'' \<and>
          (let t = dropWhile is_space rest
           in list_all2 (\<lambda>x lu. x = fst lu \<or> x = snd lu) (take 5 t) defer_letters \<and>
              (case drop 5 t of [] \<Rightarrow> True | d # ds \<Rightarrow> \<not> is_word_char d)))"

text \<open>
  Modelled from the spec: \<open>DEFER_OPERATION_REGEX.test(operation)\<close>, a match of the expression
  at some position of the operation.
\<close>

definition DEFER_OPERATION_REGEX_test :: "string \<Rightarrow> bool" where
  "DEFER_OPERATION_REGEX_test operation = list_ex defer_match_here (suffixes operation)"

text \<open>
  Modelled from the spec: \<open>formatErrorMessage\<close> of \<open>utilities.ts\<close>, which prepends the client
  label and \<open>": "\<close> unless the message is already prefixed.
\<close>

definition formatErrorMessage :: "string \<Rightarrow> string" where
  "formatErrorMessage msg = (if prefix (CLIENT @ '': '') msg then msg else CLIENT @ '': '' @ msg)"

text \<open>
  Modelled from the spec: \<open>getErrorMessage\<close> of \<open>utilities.ts\<close>, the message of a thrown
  error.
\<close>

fun getErrorMessage :: "js_error \<Rightarrow> string" where
  "getErrorMessage (Error msg c) = msg"

text \<open>
  Modelled from the spec: \<open>getErrorCause\<close> of \<open>utilities.ts\<close>, the cause of a thrown error
  (an object without properties when the error has none).
\<close>

fun getErrorCause :: "js_error \<Rightarrow> cause" where
  "getErrorCause (Error msg c) = c"

text \<open>
  Modelled from the spec: \<open>validateRetries\<close> of \<open>utilities.ts\<close>. It requires an integer
  from 0 to 3 and throws the message of the spec otherwise; a call without the option
  passes (the tests call every entry point without it).
\<close>

definition validateRetries :: "int option \<Rightarrow> js_error + unit" where
  "validateRetries retries =
     (case retries of
        None \<Rightarrow> Inr ()
      | Some n \<Rightarrow>
          if n < MIN_RETRIES \<or> n > MAX_RETRIES then
            Inl (Error (CLIENT @ '': The provided \"retries\" value ('' @ string_of_int n @
                        '') is invalid - it cannot be less than '' @ string_of_int MIN_RETRIES @
                        '' or greater than '' @ string_of_int MAX_RETRIES) NoCause)
          else Inr ())"

text \<open>
  Modelled from the spec: \<open>getKeyValueIfValid\<close> of \<open>utilities.ts\<close>. The spec includes a field
  when its value is present, and \<open>data\<close> and \<open>extensions\<close> when non-empty; the tests expect
  no \<open>data\<close> key for the empty object. The result is the value that the key gets, or
  \<open>None\<close> when the key is left out.
\<close>

definition getKeyValueIfValid :: "string \<Rightarrow> jsval \<Rightarrow> jsval option" where
  "getKeyValueIfValid key v = (if truthy v \<and> v \<noteq> JObj [] then Some v else None)"

text \<open>An element of a path: a string key or a numeric index.\<close>

datatype path_key = Key string | Index nat

text \<open>
  Modelled from the spec: \<open>buildDataObjectByPath\<close> of \<open>utilities.ts\<close>. The spec: the data is
  lifted into a nested structure so that it resides at the path; a numeric index
  constructs an array, a string key constructs an object. The slots of such an array
  before the index are unset.
\<close>

fun buildDataObjectByPath :: "path_key list \<Rightarrow> jsval \<Rightarrow> jsval" where
  "buildDataObjectByPath [] d = d"
| "buildDataObjectByPath (Key k # path) d = JObj [(k, buildDataObjectByPath path d)]"
| "buildDataObjectByPath (Index i # path) d =
     JArr (replicate i JUndefined @ [buildDataObjectByPath path d])"

text \<open>Reading a structure at a path: the property of an object, the element of an array.\<close>

fun project_path :: "path_key list \<Rightarrow> jsval \<Rightarrow> jsval option" where
  "project_path [] v = Some v"
| "project_path (Key k # path) (JObj kvs) =
     (case map_of kvs k of Some v \<Rightarrow> project_path path v | None \<Rightarrow> None)"
| "project_path (Index i # path) (JArr xs) =
     (if i < length xs then project_path path (xs ! i) else None)"
| "project_path (p # path) v = None"

text \<open>
  The \<open>path\<close> of a payload as a list of keys and indices. The spec describes a path as an
  ordered list of string keys and numeric indices; for any other value the model lets the
  lift throw a \<open>TypeError\<close>.
\<close>

fun path_key_of :: "jsval \<Rightarrow> path_key option" where
  "path_key_of (JStr s) = Some (Key s)"
| "path_key_of (JNum n) = (if 0 \<le> n then Some (Index (nat n)) else None)"
| "path_key_of v = None"

fun path_keys_of :: "jsval list \<Rightarrow> path_key list option" where
  "path_keys_of [] = Some []"
| "path_keys_of (v # vs) =
     (case path_key_of v of
        None \<Rightarrow> None
      | Some k \<Rightarrow> (case path_keys_of vs of None \<Rightarrow> None | Some ks \<Rightarrow> Some (k # ks)))"

fun path_of :: "jsval \<Rightarrow> path_key list option" where
  "path_of (JArr vs) = path_keys_of vs"
| "path_of v = None"

section \<open>The retry executor\<close>

text \<open>
  The transport (\<open>customFetchApi\<close>) is outside the client. Every call of one request gets
  the same parameters, so the transport is given by what its calls do in order: the
  \<open>k\<close>-th call since the start (counted from 0) rejects with a message or resolves with a
  response. The state of the world is the number of calls made so far.
  The request envelope (url, merged headers, JSON body), the logger and the sleep
  between attempts do not influence any result below and are not part of the model.
\<close>

datatype outcome = Rejects string | Resolves response

type_synonym transport = "nat \<Rightarrow> outcome"

record world =
  calls :: nat

text \<open>
  Modelled from the spec: \<open>httpFetch\<close> of \<open>http-fetch.ts\<close>, which is not among the sources
  (the spec's retry executor \<open>execute(requestParams, attempt, maxRetries)\<close>). It calls the
  transport once. When the call throws, or resolves with status 429 or 503, and
  \<open>attempt \<le> maxRetries\<close>, it runs again with \<open>attempt + 1\<close>. Otherwise a thrown call fails
  with the formatted message, which begins with the count of retries when
  \<open>maxRetries > 0\<close>, and a response is returned whatever its status. The result is what
  the promise of the executor settles to: the error it is rejected with, or the response.
\<close>

function httpFetch :: "transport \<Rightarrow> int \<Rightarrow> int \<Rightarrow> world \<Rightarrow> (js_error + response) \<times> world" where
  "httpFetch customFetchApi attempt maxRetries w =
     (let w1 = w\<lparr>calls := calls w + 1\<rparr> in
      case customFetchApi (calls w) of
        Rejects msg \<Rightarrow>
          if attempt \<le> maxRetries then httpFetch customFetchApi (attempt + 1) maxRetries w1
          else
            (Inl (Error (formatErrorMessage
                    ((if maxRetries > 0
                      then ''Attempted maximum number of '' @ string_of_int maxRetries @
                           '' network retries. Last message - ''
                      else []) @ msg)) NoCause), w1)
      | Resolves r \<Rightarrow>
          if (status r = 429 \<or> status r = 503) \<and> attempt \<le> maxRetries
          then httpFetch customFetchApi (attempt + 1) maxRetries w1
          else (Inr r, w1))"
  by pat_completeness auto
termination
  by (relation "measure (\<lambda>(customFetchApi, attempt, maxRetries, w). nat (maxRetries + 1 - attempt))") auto

declare httpFetch.simps [simp del]

section \<open>The client\<close>

text \<open>
  Of the client's options and configuration only \<open>retries\<close> matters here, and of a call's
  options \<open>variables\<close> and \<open>retries\<close>. \<open>createGraphQLClient\<close> validates the option (0 when left
  out) and builds the configuration.
\<close>

record client_options =
  opt_retries :: "int option"

record client_config =
  cfg_retries :: int

text \<open>
  The \<open>variables\<close> of a call: left out, a value that \<open>JSON.stringify\<close> can write, or a value
  for which \<open>JSON.stringify\<close> throws (one that holds a \<open>BigInt\<close> or refers to itself), given
  by the message of the \<open>TypeError\<close> thrown.
\<close>

datatype variables = NoVariables | Variables jsval | Unserialisable string

record request_options =
  req_variables :: variables
  req_retries :: "int option"

text \<open>
  \<open>JSON.stringify({query: operation, variables})\<close>, the body of the request: the error
  thrown, or the body, which is given by the value that is written.
\<close>

definition JSON_stringify_body :: "string \<Rightarrow> variables \<Rightarrow> js_error + jsval" where
  "JSON_stringify_body operation vars =
     (case vars of
        NoVariables \<Rightarrow> Inr (JObj [(''query'', JStr operation)])
      | Variables v \<Rightarrow> Inr (JObj [(''query'', JStr operation), (''variables'', v)])
      | Unserialisable msg \<Rightarrow> Inl (Error msg NoCause))"

definition createGraphQLClient :: "client_options \<Rightarrow> js_error + client_config" where
  "createGraphQLClient opts =
     (let retries = (case opt_retries opts of None \<Rightarrow> 0 | Some n \<Rightarrow> n) in
      case validateRetries (Some retries) of
        Inl e \<Rightarrow> Inl e
      | Inr u \<Rightarrow> Inr \<lparr>cfg_retries = retries\<rparr>)"

text \<open>
  \<open>generateFetch\<close>, an async function: the body of the request is written, which throws
  for variables that cannot be written; then the retries of the call are validated; then
  the executor runs with attempt 1 and \<open>overrideRetries ?? retries\<close>, and its promise is
  returned. The values of the headers are strings or arrays of strings by their type, so
  flattening them does not throw; the envelope does not influence the executor.
\<close>

definition fetch ::
  "client_config \<Rightarrow> transport \<Rightarrow> string \<Rightarrow> request_options \<Rightarrow> world \<Rightarrow>
     response promise completion \<times> world" where
  "fetch config customFetchApi operation options w =
     apfst async
       (case JSON_stringify_body operation (req_variables options) of
          Inl e \<Rightarrow> (Inl e, w)
        | Inr envelope \<Rightarrow>
            (case validateRetries (req_retries options) of
               Inl e \<Rightarrow> (Inl e, w)
             | Inr u \<Rightarrow>
                 httpFetch customFetchApi 1
                   (case req_retries options of Some n \<Rightarrow> n | None \<Rightarrow> cfg_retries config) w))"

text \<open>
  \<open>processJSONResponse\<close>, an async function: the body is read as JSON (a rejection is thrown
  on), its \<open>errors\<close>, \<open>data\<close> and \<open>extensions\<close> are taken (destructuring \<open>null\<close> throws a
  \<open>TypeError\<close>), and the result holds \<open>data\<close> and \<open>extensions\<close> when valid, and \<open>errors\<close> when
  \<open>errors || !data\<close>.
\<close>

definition processJSONResponse :: "response \<Rightarrow> client_response promise completion" where
  "processJSONResponse r =
     async
       (case json_body r of
          Inl msg \<Rightarrow> Inl (Error msg NoCause)
        | Inr payload \<Rightarrow>
            if payload = JNull \<or> payload = JUndefined then Inl TypeError
            else
              (let errors_v = get_prop payload ''errors'';
                   data_v = get_prop payload ''data'';
                   extensions_v = get_prop payload ''extensions''
               in Inr \<lparr>data = getKeyValueIfValid ''data'' data_v,
                       extensions = getKeyValueIfValid ''extensions'' extensions_v,
                       errors =
                         (if truthy errors_v \<or> \<not> truthy data_v then
                            Some \<lparr>networkStatusCode = Some (status r),
                                  message = Some (formatErrorMessage
                                    (if truthy errors_v then GQL_API_ERROR else NO_DATA_OR_ERRORS_ERROR)),
                                  graphQLErrors = getKeyValueIfValid ''graphQLErrors'' errors_v,
                                  err_response = Some r\<rparr>
                          else None)\<rparr>))"

text \<open>\<open>response.headers.get("content-type") || ""\<close>.\<close>

definition content_type_or_empty :: "response \<Rightarrow> string" where
  "content_type_or_empty r = (case content_type r of None \<Rightarrow> [] | Some c \<Rightarrow> c)"

text \<open>
  \<open>generateRequest\<close>, an async function. The guard throws for an operation with \<open>@defer\<close>,
  before the \<open>try\<close>. An error at \<open>await fetch(...)\<close> is caught and returned as an error
  object. The promise of \<open>processJSONResponse\<close> is returned without \<open>await\<close>: the promise of
  the call settles as it does, and its rejection is not caught by the \<open>try\<close>.
\<close>

definition request ::
  "client_config \<Rightarrow> transport \<Rightarrow> string \<Rightarrow> request_options \<Rightarrow> world \<Rightarrow>
     client_response promise completion \<times> world" where
  "request config customFetchApi operation options w =
     apfst async
       (if DEFER_OPERATION_REGEX_test operation then
          (Inl (Error (formatErrorMessage
             ''This operation will result in a streamable response - use requestStream() instead.'')
             NoCause), w)
        else
          (case apfst await (fetch config customFetchApi operation options w) of
             (Inl error, w') \<Rightarrow>
               (Inr \<lparr>data = None, extensions = None,
                     errors = Some \<lparr>networkStatusCode = None,
                                    message = Some (getErrorMessage error),
                                    graphQLErrors = None, err_response = None\<rparr>\<rparr>, w')
           | (Inr r, w') \<Rightarrow>
               (let contentType = content_type_or_empty r in
                if \<not> ok r then
                  (Inr \<lparr>data = None, extensions = None,
                        errors = Some \<lparr>networkStatusCode = Some (status r),
                                       message = Some (formatErrorMessage (statusText r)),
                                       graphQLErrors = None, err_response = Some r\<rparr>\<rparr>, w')
                else if \<not> js_includes contentType CONTENT_TYPES_json then
                  (Inr \<lparr>data = None, extensions = None,
                        errors = Some \<lparr>networkStatusCode = Some (status r),
                                       message = Some (formatErrorMessage
                                         (UNEXPECTED_CONTENT_TYPE_ERROR @ '' '' @ contentType)),
                                       graphQLErrors = None, err_response = Some r\<rparr>\<rparr>, w')
                else (await (processJSONResponse r), w'))))"

section \<open>The multipart stream parser\<close>

text \<open>
  Modelled from the spec: the constant \<open>HEADER_SEPARATOR\<close> of \<open>constants.ts\<close>, which is not
  among the sources; the spec gives it as the header/body separator \<open>\r\n\r\n\<close>.
\<close>

definition HEADER_SEPARATOR :: string where
  "HEADER_SEPARATOR = [CHR 0x0D, CHR 0x0A, CHR 0x0D, CHR 0x0A]"

text \<open>
  The body of one part, as the \<open>map\<close> callback of \<open>readStreamChunk\<close> computes it: what follows
  the first header separator, trimmed. When the separator is missing, \<open>indexOf\<close> is \<open>-1\<close> and
  the slice starts at \<open>-1 + 4\<close>.
\<close>

definition part_body :: "string \<Rightarrow> string" where
  "part_body chunk =
     js_trim (js_slice chunk (js_indexOf chunk HEADER_SEPARATOR + int (length HEADER_SEPARATOR)) None)"

text \<open>
  One iteration of the loop of \<open>readStreamChunk\<close>: the text chunk is appended to the buffer;
  when the buffer holds a boundary, everything before the last boundary is split into
  parts, the batch of their bodies is yielded when it is not empty, and the buffer keeps
  what follows the last boundary (nothing, when that is the closing \<open>--\<close>).
  The result is the batch yielded, if any, and the new buffer.
\<close>

definition readStreamChunk_step :: "string \<Rightarrow> string \<Rightarrow> string \<Rightarrow> string list option \<times> string" where
  "readStreamChunk_step boundary buffer0 textChunk =
     (let buffer = buffer0 @ textChunk in
      if js_indexOf buffer boundary > - 1 then
        (let lastBoundaryIndex = js_lastIndexOf buffer boundary;
             fullResponses = js_slice buffer 0 (Some lastBoundaryIndex);
             chunkBodies =
               map part_body
                 (filter (\<lambda>chunk. length (js_trim chunk) > 0) (js_split fullResponses boundary));
             buffer1 = js_slice buffer (lastBoundaryIndex + int (length boundary)) None;
             buffer2 = (if js_trim buffer1 = ''--'' then [] else buffer1)
         in (if length chunkBodies > 0 then Some chunkBodies else None, buffer2))
      else (None, buffer))"

text \<open>
  The loop over the text chunks. When the chunks are used up the generator returns: the
  buffer is not looked at again.
\<close>

fun readStreamChunk_loop :: "string \<Rightarrow> string \<Rightarrow> string list \<Rightarrow> string list list" where
  "readStreamChunk_loop boundary buffer [] = []"
| "readStreamChunk_loop boundary buffer (textChunk # rest) =
     (case readStreamChunk_step boundary buffer textChunk of
        (Some chunkBodies, buffer') \<Rightarrow> chunkBodies # readStreamChunk_loop boundary buffer' rest
      | (None, buffer') \<Rightarrow> readStreamChunk_loop boundary buffer' rest)"

text \<open>The buffer that the loop holds when the text chunks are used up.\<close>

fun readStreamChunk_buffer :: "string \<Rightarrow> string \<Rightarrow> string list \<Rightarrow> string" where
  "readStreamChunk_buffer boundary buffer [] = buffer"
| "readStreamChunk_buffer boundary buffer (textChunk # rest) =
     readStreamChunk_buffer boundary (snd (readStreamChunk_step boundary buffer textChunk)) rest"

text \<open>
  \<open>readStreamChunk\<close> over a body iterator that yields the text chunks and then, when
  \<open>failure\<close> is a message, throws: the batches yielded, and the error that the \<open>catch\<close>
  of \<open>readStreamChunk\<close> throws in its place.
\<close>

definition readStreamChunk ::
  "string list \<Rightarrow> string option \<Rightarrow> string \<Rightarrow> string list list \<times> js_error option" where
  "readStreamChunk textChunks failure boundary =
     (readStreamChunk_loop boundary [] textChunks,
      case failure of
        None \<Rightarrow> None
      | Some msg \<Rightarrow> Some (Error (''Error occured while processing stream payload - '' @ msg) NoCause))"

section \<open>The incremental merger and the streaming entry point\<close>

text \<open>
  What the streaming path takes from outside the sources:
  \<open>JSON_parse\<close> is JavaScript's \<open>JSON.parse\<close> (the value, or the message of the error thrown);
  \<open>BOUNDARY_HEADER_REGEX_match\<close> is \<open>contentType.match(BOUNDARY_HEADER_REGEX)\<close> for the
  regular expression of \<open>constants.ts\<close>: \<open>None\<close> when there is no match, else the first
  group (\<open>None\<close> when the group is unset);
  \<open>buildCombinedDataObject\<close> is the deep merge of \<open>utilities.ts\<close>;
  \<open>greater_than_zero\<close> is JavaScript's \<open>v > 0\<close> for a string or an array \<open>v\<close>, which is
  converted to a number first.
\<close>

record externals =
  JSON_parse :: "string \<Rightarrow> string + jsval"
  BOUNDARY_HEADER_REGEX_match :: "string \<Rightarrow> string option option"
  buildCombinedDataObject :: "jsval list \<Rightarrow> jsval"
  greater_than_zero :: "jsval \<Rightarrow> bool"

text \<open>An element of \<open>dataArray\<close>; a key that is left out reads as \<open>undefined\<close>.\<close>

record datum =
  d_data :: jsval
  d_errors :: jsval
  d_extensions :: jsval
  d_hasNext :: jsval

definition value_or_undefined :: "jsval option \<Rightarrow> jsval" where
  "value_or_undefined v = (case v of None \<Rightarrow> JUndefined | Some x \<Rightarrow> x)"

text \<open>\<open>a ?? b\<close>.\<close>

definition nullish_or :: "jsval \<Rightarrow> jsval \<Rightarrow> jsval" where
  "nullish_or a b = (if a = JNull \<or> a = JUndefined then b else a)"

text \<open>The first \<open>map\<close>: every part body is parsed; the first failure is thrown.\<close>

fun parse_bodies :: "(string \<Rightarrow> string + jsval) \<Rightarrow> string list \<Rightarrow> js_error + jsval list" where
  "parse_bodies parse [] = Inr []"
| "parse_bodies parse (v # vs) =
     (case parse v of
        Inl msg \<Rightarrow> Inl (Error (''Error in parsing multipart response - '' @ msg) NoCause)
      | Inr payload \<Rightarrow>
          (case parse_bodies parse vs of Inl e \<Rightarrow> Inl e | Inr ps \<Rightarrow> Inr (payload # ps)))"

text \<open>
  The second \<open>map\<close>, for one payload: \<open>data\<close> is lifted to \<open>path\<close> when both are there, and is
  \<open>data || {}\<close> otherwise.
\<close>

definition payload_datum :: "jsval \<Rightarrow> js_error + datum" where
  "payload_datum payload =
     (if payload = JNull \<or> payload = JUndefined then Inl TypeError
      else
        (let data_v = get_prop payload ''data'';
             path_v = get_prop payload ''path'';
             hasNext_v = get_prop payload ''hasNext'';
             extensions_v = get_prop payload ''extensions'';
             errors_v = get_prop payload ''errors''
         in case (if truthy data_v \<and> truthy path_v then
                    (case path_of path_v of
                       None \<Rightarrow> Inl TypeError
                     | Some p \<Rightarrow> Inr (buildDataObjectByPath p data_v))
                  else Inr (if truthy data_v then data_v else JObj [])) of
              Inl e \<Rightarrow> Inl e
            | Inr payloadData \<Rightarrow>
                Inr \<lparr>d_data = payloadData,
                     d_errors = value_or_undefined (getKeyValueIfValid ''errors'' errors_v),
                     d_extensions = value_or_undefined (getKeyValueIfValid ''extensions'' extensions_v),
                     d_hasNext = hasNext_v\<rparr>))"

fun payload_data :: "jsval list \<Rightarrow> js_error + datum list" where
  "payload_data [] = Inr []"
| "payload_data (payload # ps) =
     (case payload_datum payload of
        Inl e \<Rightarrow> Inl e
      | Inr d \<Rightarrow> (case payload_data ps of Inl e \<Rightarrow> Inl e | Inr ds \<Rightarrow> Inr (d # ds)))"

text \<open>
  \<open>errors.length > 0\<close>. An array and a string have their length. For an object the
  property \<open>length\<close> is read and converted to a number: \<open>true\<close> is 1, \<open>false\<close> and \<open>null\<close> are
  0, \<open>undefined\<close> and an object are not a number, and a string or an array is converted by
  JavaScript. A number and a boolean have no \<open>length\<close>.
\<close>

fun has_positive_length :: "externals \<Rightarrow> jsval \<Rightarrow> bool" where
  "has_positive_length ext (JArr xs) = (xs \<noteq> [])"
| "has_positive_length ext (JStr s) = (s \<noteq> [])"
| "has_positive_length ext (JObj kvs) =
     (case map_of kvs ''length'' of
        Some (JNum n) \<Rightarrow> 0 < n
      | Some (JBool b) \<Rightarrow> b
      | Some (JStr s) \<Rightarrow> greater_than_zero ext (JStr s)
      | Some (JArr xs) \<Rightarrow> greater_than_zero ext (JArr xs)
      | _ \<Rightarrow> False)"
| "has_positive_length ext v = False"

text \<open>One level of \<open>Array.prototype.flat\<close>.\<close>

fun flat_item :: "jsval \<Rightarrow> jsval list" where
  "flat_item (JArr xs) = xs"
| "flat_item v = [v]"

text \<open>\<open>Object.keys(v).length\<close>; \<open>Object.keys\<close> throws for \<open>null\<close> and \<open>undefined\<close>.\<close>

fun object_keys_length :: "jsval \<Rightarrow> js_error + nat" where
  "object_keys_length JUndefined = Inl TypeError"
| "object_keys_length JNull = Inl TypeError"
| "object_keys_length (JObj kvs) = Inr (length (remdups (map fst kvs)))"
| "object_keys_length (JArr xs) = Inr (length (filter (\<lambda>x. x \<noteq> JUndefined) xs))"
| "object_keys_length (JStr s) = Inr (length s)"
| "object_keys_length v = Inr 0"

text \<open>\<open>dataArray.find((datum) => datum.extensions)?.extensions ?? responseExtensions\<close>.\<close>

definition next_extensions :: "datum list \<Rightarrow> jsval \<Rightarrow> jsval" where
  "next_extensions dataArray responseExtensions0 =
     (case find (\<lambda>datum. truthy (d_extensions datum)) dataArray of
        None \<Rightarrow> responseExtensions0
      | Some datum \<Rightarrow> nullish_or (d_extensions datum) responseExtensions0)"

text \<open>\<open>dataArray.slice(-1)[0].hasNext\<close>: reading \<open>hasNext\<close> of \<open>undefined\<close> throws.\<close>

definition last_hasNext :: "datum list \<Rightarrow> js_error + jsval" where
  "last_hasNext dataArray =
     (case js_slice dataArray (- 1) None of
        [] \<Rightarrow> Inl TypeError
      | d # ds \<Rightarrow> Inr (d_hasNext d))"

text \<open>The variables that the iterator of \<open>requestStream\<close> updates.\<close>

record merge_state =
  combinedData :: jsval
  responseExtensions :: jsval
  streamHasNext :: jsval

definition initial_merge_state :: merge_state where
  "initial_merge_state =
     \<lparr>combinedData = JObj [], responseExtensions = JUndefined, streamHasNext = JBool True\<rparr>"

text \<open>
  The body of the \<open>for await\<close> loop for one batch: the new state, and the snapshot yielded
  or the error thrown. The variables are assigned in the order of the source, so an error
  leaves the assignments made before it.
\<close>

definition merge_batch ::
  "externals \<Rightarrow> merge_state \<Rightarrow> string list \<Rightarrow> merge_state \<times> (js_error + client_stream_response)" where
  "merge_batch ext st chunkBodies =
     (case parse_bodies (JSON_parse ext) chunkBodies of
        Inl e \<Rightarrow> (st, Inl e)
      | Inr payloads \<Rightarrow>
          (case payload_data payloads of
             Inl e \<Rightarrow> (st, Inl e)
           | Inr dataArray \<Rightarrow>
               (let responseExtensions1 = next_extensions dataArray (responseExtensions st);
                    responseErrors =
                      concat (map flat_item
                        (filter (\<lambda>e. truthy e \<and> has_positive_length ext e) (map d_errors dataArray)));
                    combinedData1 =
                      buildCombinedDataObject ext (combinedData st # map d_data dataArray);
                    st1 = st\<lparr>combinedData := combinedData1, responseExtensions := responseExtensions1\<rparr>
                in case last_hasNext dataArray of
                     Inl e \<Rightarrow> (st1, Inl e)
                   | Inr streamHasNext1 \<Rightarrow>
                       (let st2 = st1\<lparr>streamHasNext := streamHasNext1\<rparr> in
                        if length responseErrors > 0 then
                          (st2, Inl (Error GQL_API_ERROR (GraphQLErrorsCause responseErrors)))
                        else
                          (case object_keys_length combinedData1 of
                             Inl e \<Rightarrow> (st2, Inl e)
                           | Inr n \<Rightarrow>
                               if n = 0 then (st2, Inl (Error NO_DATA_OR_ERRORS_ERROR NoCause))
                               else
                                 (st2, Inr \<lparr>data = getKeyValueIfValid ''data'' combinedData1,
                                           extensions = getKeyValueIfValid ''extensions'' responseExtensions1,
                                           errors = None,
                                           hasNext = streamHasNext1\<rparr>))))))"

text \<open>
  The \<open>for await\<close> loop over the batches: the snapshots yielded, the state at the end, and
  the error that ended the loop, if one did.
\<close>

fun merge_batches ::
  "externals \<Rightarrow> merge_state \<Rightarrow> string list list \<Rightarrow>
     client_stream_response list \<times> merge_state \<times> js_error option" where
  "merge_batches ext st [] = ([], st, None)"
| "merge_batches ext st (chunkBodies # rest) =
     (case merge_batch ext st chunkBodies of
        (st', Inl e) \<Rightarrow> ([], st', Some e)
      | (st', Inr snapshot) \<Rightarrow>
          (case merge_batches ext st' rest of
             (snapshots, st'', thrown) \<Rightarrow> (snapshot # snapshots, st'', thrown)))"

fun cause_graphQLErrors :: "cause \<Rightarrow> jsval" where
  "cause_graphQLErrors (GraphQLErrorsCause es) = JArr es"
| "cause_graphQLErrors c = JUndefined"

fun cause_status :: "cause \<Rightarrow> jsval" where
  "cause_status (ResponseCause r) = JNum (status r)"
| "cause_status c = JUndefined"

fun number_of :: "jsval option \<Rightarrow> int option" where
  "number_of (Some (JNum n)) = Some n"
| "number_of v = None"

text \<open>The snapshot that the \<open>catch\<close> of the iterator yields.\<close>

definition error_snapshot :: "int \<Rightarrow> merge_state \<Rightarrow> js_error \<Rightarrow> client_stream_response" where
  "error_snapshot status_code st error =
     \<lparr>data = getKeyValueIfValid ''data'' (combinedData st),
      extensions = getKeyValueIfValid ''extensions'' (responseExtensions st),
      errors = Some \<lparr>networkStatusCode = Some status_code,
                     message = Some (formatErrorMessage (getErrorMessage error)),
                     graphQLErrors =
                       getKeyValueIfValid ''graphQLErrors'' (cause_graphQLErrors (getErrorCause error)),
                     err_response = None\<rparr>,
      hasNext = JBool False\<rparr>"

text \<open>
  \<open>iteratorResponse\<close>: the loop over the batches of the parser; after it, an error of the
  parser is thrown on, and when \<open>streamHasNext\<close> is still set the termination error is
  thrown; the \<open>catch\<close> turns the error into one last snapshot.
\<close>

definition iteratorResponse ::
  "externals \<Rightarrow> int \<Rightarrow> string list list \<times> js_error option \<Rightarrow>
     client_stream_response async_iteration" where
  "iteratorResponse ext status_code parsed =
     (case merge_batches ext initial_merge_state (fst parsed) of
        (snapshots, st, thrown) \<Rightarrow>
          (let thrown1 =
                 (case thrown of
                    Some e \<Rightarrow> Some e
                  | None \<Rightarrow>
                      (case snd parsed of
                         Some e \<Rightarrow> Some e
                       | None \<Rightarrow>
                           if truthy (streamHasNext st)
                           then Some (Error ''Response stream terminated unexpectedly'' NoCause)
                           else None))
           in (snapshots @ (case thrown1 of None \<Rightarrow> [] | Some e \<Rightarrow> [error_snapshot status_code st e]),
               None)))"

text \<open>The iterator that the outer \<open>catch\<close> of \<open>requestStream\<close> returns.\<close>

definition failure_stream :: "js_error \<Rightarrow> client_stream_response async_iteration" where
  "failure_stream error =
     ([\<lparr>data = None, extensions = None,
        errors = Some \<lparr>networkStatusCode =
                         number_of (getKeyValueIfValid ''networkStatusCode''
                                      (cause_status (getErrorCause error))),
                       message = Some (formatErrorMessage (getErrorMessage error)),
                       graphQLErrors = None, err_response = None\<rparr>,
        hasNext = JBool False\<rparr>], None)"

text \<open>The iterator for a JSON response: one snapshot, or the error of \<open>processJSONResponse\<close>.\<close>

definition json_stream :: "response \<Rightarrow> client_stream_response async_iteration" where
  "json_stream r =
     (case await (processJSONResponse r) of
        Inl e \<Rightarrow> ([], Some e)
      | Inr processedResponse \<Rightarrow>
          ([\<lparr>data = data processedResponse, extensions = extensions processedResponse,
             errors = errors processedResponse, hasNext = JBool False\<rparr>], None))"

text \<open>The \<open>try\<close> block of \<open>requestStream\<close> after \<open>fetch\<close> has returned a response.\<close>

definition response_stream ::
  "externals \<Rightarrow> response \<Rightarrow> js_error + client_stream_response async_iteration" where
  "response_stream ext r =
     (if \<not> ok r then Inl (Error (statusText r) (ResponseCause r))
      else
        (let responseContentType = content_type_or_empty r in
         if list_all (\<lambda>t. \<not> js_includes responseContentType t)
              [CONTENT_TYPES_json, CONTENT_TYPES_multipart]
         then Inl (Error (UNEXPECTED_CONTENT_TYPE_ERROR @ '' '' @ responseContentType) (ResponseCause r))
         else if js_includes responseContentType CONTENT_TYPES_json then Inr (json_stream r)
         else
           (let boundary =
                  ''--'' @ (case BOUNDARY_HEADER_REGEX_match ext responseContentType of
                             None \<Rightarrow> ''-''
                           | Some None \<Rightarrow> ''undefined''
                           | Some (Some token) \<Rightarrow> token)
            in case body r of
                 NullBody \<Rightarrow> Inl TypeError
               | OpaqueBody \<Rightarrow>
                   Inl (Error ''API multipart response did not return an iterable body'' (ResponseCause r))
               | StreamBody textChunks failure \<Rightarrow>
                   Inr (iteratorResponse ext (status r) (readStreamChunk textChunks failure boundary)))))"

text \<open>
  \<open>generateRequestStream\<close>, an async function. The guard throws for an operation without
  \<open>@defer\<close>, before the \<open>try\<close>; every error of the \<open>try\<close> block, the one at
  \<open>await fetch(...)\<close> included, becomes a stream of one error snapshot.
\<close>

definition requestStream ::
  "externals \<Rightarrow> client_config \<Rightarrow> transport \<Rightarrow> string \<Rightarrow> request_options \<Rightarrow> world \<Rightarrow>
     client_stream_response async_iteration promise completion \<times> world" where
  "requestStream ext config customFetchApi operation options w =
     apfst async
       (if \<not> DEFER_OPERATION_REGEX_test operation then
          (Inl (Error (formatErrorMessage
             ''This operation does not result in a streamable response - use request() instead.'')
             NoCause), w)
        else
          (case apfst await (fetch config customFetchApi operation options w) of
             (Inl error, w') \<Rightarrow> (Inr (failure_stream error), w')
           | (Inr r, w') \<Rightarrow>
               (case response_stream ext r of
                  Inl error \<Rightarrow> (Inr (failure_stream error), w')
                | Inr stream \<Rightarrow> (Inr stream, w'))))"

section \<open>Auxiliary notions and sample inputs\<close>

text \<open>The pieces of a split put together again, with the separator between them.\<close>

fun join :: "'a list \<Rightarrow> 'a list list \<Rightarrow> 'a list" where
  "join sep [] = []"
| "join sep [x] = x"
| "join sep (x # y # ys) = x @ sep @ join sep (y # ys)"

text \<open>
  A small multipart stream in the shape of the test suite's: two parts, the first with
  \<open>hasNext: true\<close>, the second a deferred fragment for the path \<open>["s"]\<close>, delivered in two
  text chunks, the second of which ends with the closing boundary.
\<close>

definition CRLF :: string where
  "CRLF = [CHR 0x0D, CHR 0x0A]"

definition sample_boundary :: string where
  "sample_boundary = ''--gql''"

definition sample_first_text :: string where
  "sample_first_text = ''{\"data\":{\"s\":{\"a\":1}},\"extensions\":{\"e\":1},\"hasNext\":true}''"

definition sample_first_payload :: jsval where
  "sample_first_payload =
     JObj [(''data'', JObj [(''s'', JObj [(''a'', JNum 1)])]),
           (''extensions'', JObj [(''e'', JNum 1)]),
           (''hasNext'', JBool True)]"

definition sample_second_text :: string where
  "sample_second_text =
     ''{\"path\":[\"s\"],\"data\":{\"b\":2},\"extensions\":{\"e\":2},\"hasNext\":false}''"

definition sample_second_payload :: jsval where
  "sample_second_payload =
     JObj [(''path'', JArr [JStr ''s'']),
           (''data'', JObj [(''b'', JNum 2)]),
           (''extensions'', JObj [(''e'', JNum 2)]),
           (''hasNext'', JBool False)]"

definition sample_errors_text :: string where
  "sample_errors_text = ''{\"errors\":[\"E\"],\"hasNext\":false}''"

definition sample_errors_payload :: jsval where
  "sample_errors_payload = JObj [(''errors'', JArr [JStr ''E'']), (''hasNext'', JBool False)]"

definition sample_chunks :: "string list" where
  "sample_chunks =
     [CRLF @ ''--gql'' @ CRLF @ ''A: b'' @ CRLF @ CRLF @ sample_first_text @ CRLF @ ''--gql'' @
        CRLF @ ''A: b'' @ CRLF,
      CRLF @ sample_second_text @ CRLF @ ''--gql--'']"

text \<open>\<open>JSON.parse\<close> on the texts of the samples; it throws for every other text.\<close>

definition sample_JSON_parse :: "string \<Rightarrow> string + jsval" where
  "sample_JSON_parse s =
     (if s = sample_first_text then Inr sample_first_payload
      else if s = sample_second_text then Inr sample_second_payload
      else if s = sample_errors_text then Inr sample_errors_payload
      else Inl ''Unexpected token'')"

text \<open>A merge of objects down to nesting depth two, which is enough for the samples.\<close>

definition merge_fields ::
  "(jsval \<Rightarrow> jsval \<Rightarrow> jsval) \<Rightarrow> (string \<times> jsval) list \<Rightarrow> (string \<times> jsval) list \<Rightarrow>
     (string \<times> jsval) list" where
  "merge_fields f a b =
     map (\<lambda>kv. (fst kv, case map_of b (fst kv) of None \<Rightarrow> snd kv | Some v \<Rightarrow> f (snd kv) v)) a @
     filter (\<lambda>kv. map_of a (fst kv) = None) b"

fun sample_merge1 :: "jsval \<Rightarrow> jsval \<Rightarrow> jsval" where
  "sample_merge1 (JObj a) (JObj b) = JObj (merge_fields (\<lambda>u v. v) a b)"
| "sample_merge1 u v = v"

fun sample_merge2 :: "jsval \<Rightarrow> jsval \<Rightarrow> jsval" where
  "sample_merge2 (JObj a) (JObj b) = JObj (merge_fields sample_merge1 a b)"
| "sample_merge2 u v = v"

definition sample_buildCombinedDataObject :: "jsval list \<Rightarrow> jsval" where
  "sample_buildCombinedDataObject vs = (case vs of [] \<Rightarrow> JObj [] | v # rest \<Rightarrow> foldl sample_merge2 v rest)"

definition sample_externals :: externals where
  "sample_externals =
     \<lparr>JSON_parse = sample_JSON_parse,
      BOUNDARY_HEADER_REGEX_match = (\<lambda>contentType. Some (Some ''gql'')),
      buildCombinedDataObject = sample_buildCombinedDataObject,
      greater_than_zero = (\<lambda>v. False)\<rparr>"

definition sample_defer_operation :: string where
  "sample_defer_operation = ''query { shop { id ... @defer { name } } }''"

definition sample_plain_operation :: string where
  "sample_plain_operation = ''query { shop { name } }''"

text \<open>\<open>overrideRetries ?? retries\<close>: the retries that a call runs with.\<close>

definition effective_retries :: "client_config \<Rightarrow> request_options \<Rightarrow> int" where
  "effective_retries config options =
     (case req_retries options of Some n \<Rightarrow> n | None \<Rightarrow> cfg_retries config)"

text \<open>An outcome after which the executor runs again while the budget lasts.\<close>

fun retriable :: "outcome \<Rightarrow> bool" where
  "retriable (Rejects msg) = True"
| "retriable (Resolves r) = (status r = 429 \<or> status r = 503)"

text \<open>What the executor does with the outcome of its last permitted attempt.\<close>

fun final_result :: "int \<Rightarrow> outcome \<Rightarrow> js_error + response" where
  "final_result maxRetries (Rejects msg) =
     Inl (Error (if maxRetries > 0
                 then ''GraphQL Client: Attempted maximum number of '' @ string_of_int maxRetries @
                      '' network retries. Last message - '' @ msg
                 else formatErrorMessage msg) NoCause)"
| "final_result maxRetries (Resolves r) = Inr r"

definition sample_response :: response where
  "sample_response =
     \<lparr>status = 200, statusText = ''OK'', ok = True, content_type = Some ''application/json'',
      json_body = Inr (JObj [(''data'', JObj [(''shop'', JObj [(''name'', JStr ''Test shop'')])])]),
      body = NullBody\<rparr>"

definition sample_unavailable :: response where
  "sample_unavailable =
     sample_response\<lparr>status := 503, statusText := ''Service Unavailable'', ok := False\<rparr>"

definition sample_server_error :: response where
  "sample_server_error =
     sample_response\<lparr>status := 500, statusText := ''Internal Server Error'', ok := False\<rparr>"

text \<open>The message of \<open>validateRetries\<close> for the value \<open>n\<close>, written out.\<close>

definition invalid_retries_message :: "int \<Rightarrow> string" where
  "invalid_retries_message n =
     ''GraphQL Client: The provided \"retries\" value ('' @ string_of_int n @
     '') is invalid - it cannot be less than 0 or greater than 3''"

text \<open>A payload has a field when it is an object with that key, whatever the value.\<close>

definition has_field :: "jsval \<Rightarrow> string \<Rightarrow> bool" where
  "has_field v k = (case v of JObj kvs \<Rightarrow> map_of kvs k \<noteq> None | _ \<Rightarrow> False)"

text \<open>
  The \<open>hasNext\<close> of the last payload of the last batch; \<open>true\<close>, the initial value of
  \<open>streamHasNext\<close>, when there is no batch.
\<close>

definition last_payload_hasNext :: "externals \<Rightarrow> string list list \<Rightarrow> jsval" where
  "last_payload_hasNext ext batches =
     (if batches = [] then JBool True
      else (case JSON_parse ext (last (last batches)) of
              Inl msg \<Rightarrow> JUndefined
            | Inr payload \<Rightarrow> get_prop payload ''hasNext''))"

definition sample_null_data_response :: response where
  "sample_null_data_response = sample_response\<lparr>json_body := Inr (JObj [(''data'', JNull)])\<rparr>"

definition sample_html_response :: response where
  "sample_html_response = sample_response\<lparr>content_type := Some ''text/html''\<rparr>"

definition sample_errors_response :: response where
  "sample_errors_response =
     sample_response\<lparr>json_body :=
       Inr (JObj [(''errors'', JArr [JStr ''GQL error'']),
                  (''data'', JObj [(''product'', JObj [(''title'', JStr ''product title'')])])])\<rparr>"

text \<open>The snapshots and states of the sample stream.\<close>

definition sample_first_snapshot :: client_stream_response where
  "sample_first_snapshot =
     \<lparr>data = Some (JObj [(''s'', JObj [(''a'', JNum 1)])]),
      extensions = Some (JObj [(''e'', JNum 1)]),
      errors = None, hasNext = JBool True\<rparr>"

definition sample_first_state :: merge_state where
  "sample_first_state =
     \<lparr>combinedData = JObj [(''s'', JObj [(''a'', JNum 1)])],
      responseExtensions = JObj [(''e'', JNum 1)],
      streamHasNext = JBool True\<rparr>"

definition sample_second_snapshot :: client_stream_response where
  "sample_second_snapshot =
     \<lparr>data = Some (JObj [(''s'', JObj [(''a'', JNum 1), (''b'', JNum 2)])]),
      extensions = Some (JObj [(''e'', JNum 2)]),
      errors = None, hasNext = JBool False\<rparr>"

definition sample_second_state :: merge_state where
  "sample_second_state =
     \<lparr>combinedData = JObj [(''s'', JObj [(''a'', JNum 1), (''b'', JNum 2)])],
      responseExtensions = JObj [(''e'', JNum 2)],
      streamHasNext = JBool False\<rparr>"

text \<open>A stream of one part that carries GraphQL errors and \<open>hasNext: false\<close>.\<close>

definition sample_errors_chunk :: string where
  "sample_errors_chunk =
     CRLF @ ''--gql'' @ CRLF @ ''A: b'' @ CRLF @ CRLF @ sample_errors_text @ CRLF @ ''--gql--''"

definition sample_multipart_response :: response where
  "sample_multipart_response =
     \<lparr>status = 200, statusText = ''OK'', ok = True,
      content_type = Some ''multipart/mixed; boundary=gql'',
      json_body = Inl ''Unexpected token'',
      body = StreamBody sample_chunks None\<rparr>"

text \<open>A call that throws, as opposed to one that returns (a promise, for an async function).\<close>

fun throws_synchronously :: "'a completion \<Rightarrow> bool" where
  "throws_synchronously (Throws e) = True"
| "throws_synchronously (Returns v) = False"

text \<open>
  Where a part of a multipart text starts: \<open>pre\<close>, the text before the part, is empty, or
  ends with the boundary, or ends with the boundary and a closing \<open>--\<close> (with white space
  around it, if any).
\<close>

definition part_start :: "string \<Rightarrow> string \<Rightarrow> bool" where
  "part_start boundary pre =
     (pre = [] \<or> suffix boundary pre \<or>
      list_ex (\<lambda>t. js_trim t = ''--'' \<and> suffix (boundary @ t) pre) (suffixes pre))"

text \<open>The first part of the sample stream, from its boundary to the next.\<close>

definition sample_first_part :: string where
  "sample_first_part = CRLF @ ''A: b'' @ CRLF @ CRLF @ sample_first_text @ CRLF"

text \<open>A stream of one part that has no header block: the payload follows the boundary.\<close>

definition sample_headerless_part :: string where
  "sample_headerless_part = ''{\"a\":1}''"

definition sample_headerless_chunk :: string where
  "sample_headerless_chunk = ''--gql'' @ sample_headerless_part @ ''--gql--''"

text \<open>Responses whose body is \<open>null\<close>, and is not JSON.\<close>

definition sample_null_body_response :: response where
  "sample_null_body_response = sample_response\<lparr>json_body := Inr JNull\<rparr>"

definition sample_not_json_response :: response where
  "sample_not_json_response = sample_response\<lparr>json_body := Inl ''Unexpected token < in JSON''\<rparr>"

text \<open>Variables that hold a \<open>BigInt\<close>.\<close>

definition sample_bigint_variables :: variables where
  "sample_bigint_variables = Unserialisable ''Do not know how to serialize a BigInt''"

section \<open>Properties of the string functions\<close>

lemma split_from_nonempty: "js_split_from sep cur s \<noteq> []"
  by (induction sep cur s rule: js_split_from.induct) (subst js_split_from.simps, simp)

lemma join_Cons: "ys \<noteq> [] \<Longrightarrow> join sep (x # ys) = x @ sep @ join sep ys"
  by (cases ys) simp_all

lemma split_from_join: "sep \<noteq> [] \<Longrightarrow> join sep (js_split_from sep cur s) = cur @ s"
proof (induction sep cur s rule: js_split_from.induct)
  case (1 sep cur s)
  show ?case
  proof (cases "s = []")
    case True
    then show ?thesis by (simp add: js_split_from.simps)
  next
    case False
    show ?thesis
    proof (cases "prefix sep s")
      case True
      then obtain t where t: "s = sep @ t" by (auto simp: prefix_def)
      from 1(1)[OF False] True 1(3)
      have "join sep (js_split_from sep [] (drop (length sep) s)) = drop (length sep) s" by simp
      then show ?thesis using False True 1(3) t
        by (subst js_split_from.simps) (simp add: join_Cons split_from_nonempty)
    next
      case no_prefix: False
      from 1(2)[OF False] no_prefix 1(3)
      have "join sep (js_split_from sep (cur @ [hd s]) (tl s)) = (cur @ [hd s]) @ tl s" by simp
      then show ?thesis using False no_prefix by (subst js_split_from.simps) auto
    qed
  qed
qed

lemma join_member:
  "seg \<in> set xs \<Longrightarrow>
   \<exists>pre post. join sep xs @ sep = pre @ seg @ sep @ post \<and> (pre = [] \<or> suffix sep pre)"
proof (induction xs rule: join.induct)
  case (1 sep)
  then show ?case by simp
next
  case (2 sep x)
  then have "join sep [x] @ sep = [] @ seg @ sep @ []" by simp
  then show ?case by blast
next
  case (3 sep x y ys)
  show ?case
  proof (cases "seg = x")
    case True
    then have "join sep (x # y # ys) @ sep = [] @ seg @ sep @ (join sep (y # ys) @ sep)" by simp
    then show ?thesis by blast
  next
    case False
    with 3 obtain pre post where
      eq: "join sep (y # ys) @ sep = pre @ seg @ sep @ post" and
      st: "pre = [] \<or> suffix sep pre"
      by auto
    from eq have "join sep (x # y # ys) @ sep = (x @ sep @ pre) @ seg @ sep @ post" by simp
    moreover from st have "suffix sep (x @ sep @ pre)"
      by (auto simp: suffix_def)
    ultimately show ?thesis by blast
  qed
qed

lemma occurrences_from_prefix:
  "i \<in> set (occurrences_from k s pat) \<Longrightarrow>
   k \<le> i \<and> i - k \<le> length s \<and> prefix pat (drop (i - k) s)"
proof (induction s arbitrary: k)
  case Nil
  then show ?case by (auto split: if_splits)
next
  case (Cons c s)
  show ?case
  proof (cases "i \<in> set (occurrences_from (Suc k) s pat)")
    case True
    from Cons.IH[OF this]
    have "Suc k \<le> i" "i - Suc k \<le> length s" "prefix pat (drop (i - Suc k) s)" by auto
    moreover from \<open>Suc k \<le> i\<close> have "i - k = Suc (i - Suc k)" by simp
    ultimately show ?thesis by simp
  next
    case False
    with Cons.prems have "i = k \<and> prefix pat (c # s)" by (auto split: if_splits)
    then show ?thesis by simp
  qed
qed

lemma occurrences_prefix:
  "i \<in> set (occurrences s pat) \<Longrightarrow> i \<le> length s \<and> prefix pat (drop i s)"
  using occurrences_from_prefix[of i 0 s pat] by (simp add: occurrences_def)

lemma lastIndexOf_found:
  assumes "js_indexOf s pat > - 1"
  shows "\<exists>i. js_lastIndexOf s pat = int i \<and> i \<le> length s \<and> prefix pat (drop i s)"
proof -
  from assms have ne: "occurrences s pat \<noteq> []"
    by (auto simp: js_indexOf_def split: list.splits)
  then have "last (occurrences s pat) \<in> set (occurrences s pat)" by simp
  then have "last (occurrences s pat) \<le> length s \<and> prefix pat (drop (last (occurrences s pat)) s)"
    by (rule occurrences_prefix)
  moreover from ne have "js_lastIndexOf s pat = int (last (occurrences s pat))"
    by (auto simp: js_lastIndexOf_def split: list.splits)
  ultimately show ?thesis by blast
qed

lemma split_from_pieces:
  "sep \<noteq> [] \<Longrightarrow> js_split_from sep cur s = x # xs \<Longrightarrow>
   (\<exists>u. x = cur @ u \<and> prefix u s \<and> (\<forall>j. \<not> prefix sep (drop j u))) \<and>
   (\<forall>y \<in> set xs. \<forall>j. \<not> prefix sep (drop j y))"
proof (induction sep cur s arbitrary: x xs rule: js_split_from.induct)
  case (1 sep cur s)
  show ?case
  proof (cases "s = []")
    case True
    with 1(4) have "x = cur" "xs = []" by (simp_all add: js_split_from.simps)
    with 1(3) show ?thesis by simp
  next
    case False
    show ?thesis
    proof (cases "prefix sep s")
      case True
      with False 1(3,4) have x: "x = cur"
        and xs: "js_split_from sep [] (drop (length sep) s) = xs"
        by (simp_all add: js_split_from.simps[of sep cur s])
      from split_from_nonempty[of sep "[]" "drop (length sep) s"] xs
      obtain y ys where ys: "xs = y # ys" by (cases xs) auto
      from 1(1)[OF False _ 1(3), of y ys] True 1(3) xs ys
      have "(\<exists>u. y = [] @ u \<and> prefix u (drop (length sep) s) \<and> (\<forall>j. \<not> prefix sep (drop j u))) \<and>
            (\<forall>z \<in> set ys. \<forall>j. \<not> prefix sep (drop j z))"
        by simp
      then have "\<forall>z \<in> set xs. \<forall>j. \<not> prefix sep (drop j z)" using ys by auto
      moreover from 1(3) have "x = cur @ [] \<and> prefix [] s \<and> (\<forall>j. \<not> prefix sep (drop j []))"
        using x by simp
      ultimately show ?thesis by blast
    next
      case no_prefix: False
      with False 1(4) have rec: "js_split_from sep (cur @ [hd s]) (tl s) = x # xs"
        by (simp add: js_split_from.simps[of sep cur s])
      from 1(2)[OF False _ 1(3) rec] no_prefix
      obtain u where u: "x = (cur @ [hd s]) @ u" "prefix u (tl s)" "\<forall>j. \<not> prefix sep (drop j u)"
        and rest: "\<forall>y \<in> set xs. \<forall>j. \<not> prefix sep (drop j y)"
        by auto
      from u(2) False have pre: "prefix (hd s # u) s" by (cases s) simp_all
      have "\<not> prefix sep (drop j (hd s # u))" for j
      proof (cases j)
        case 0
        show ?thesis
        proof
          assume "prefix sep (drop j (hd s # u))"
          with 0 have "prefix sep (hd s # u)" by simp
          from this pre have "prefix sep s" by (rule prefix_order.trans)
          with no_prefix show False by simp
        qed
      next
        case (Suc k)
        with u(3) show ?thesis by simp
      qed
      with u(1) pre rest show ?thesis by auto
    qed
  qed
qed

lemma indexOf_none:
  assumes "\<forall>j. \<not> prefix pat (drop j s)"
  shows "js_indexOf s pat = - 1"
proof (cases "occurrences s pat")
  case Nil
  then show ?thesis by (simp add: js_indexOf_def)
next
  case (Cons i rest)
  then have "i \<in> set (occurrences s pat)" by simp
  from occurrences_prefix[OF this] assms show ?thesis by simp
qed

lemma indexOf_found:
  assumes "js_indexOf s pat \<noteq> - 1"
  shows "\<exists>i. js_indexOf s pat = int i \<and> i \<le> length s \<and> prefix pat (drop i s)"
proof (cases "occurrences s pat")
  case Nil
  with assms show ?thesis by (simp add: js_indexOf_def)
next
  case (Cons i rest)
  then have "i \<in> set (occurrences s pat)" by simp
  from occurrences_prefix[OF this] Cons show ?thesis by (simp add: js_indexOf_def)
qed

lemma split_member:
  assumes "sep \<noteq> []" "seg \<in> set (js_split s sep)"
  shows "(\<exists>pre post. s @ sep = pre @ seg @ sep @ post \<and> (pre = [] \<or> suffix sep pre)) \<and>
         js_indexOf seg sep = - 1"
proof -
  from assms have mem: "seg \<in> set (js_split_from sep [] s)" by (simp add: js_split_def)
  from join_member[OF mem, of sep] split_from_join[OF assms(1), of "[]" s]
  have a: "\<exists>pre post. s @ sep = pre @ seg @ sep @ post \<and> (pre = [] \<or> suffix sep pre)" by simp
  obtain x xs where xs: "js_split_from sep [] s = x # xs"
    using split_from_nonempty[of sep "[]" s] by (cases "js_split_from sep [] s") auto
  from split_from_pieces[OF assms(1) xs] have "\<forall>y \<in> set (x # xs). \<forall>j. \<not> prefix sep (drop j y)"
    by auto
  with mem xs have "\<forall>j. \<not> prefix sep (drop j seg)" by auto
  then have "js_indexOf seg sep = - 1" by (rule indexOf_none)
  with a show ?thesis by blast
qed

lemma slice_take: "i \<le> length s \<Longrightarrow> js_slice s 0 (Some (int i)) = take i s"
  by (simp add: js_slice_def slice_index_def)

lemma slice_drop: "js_slice s (int i) None = drop i s"
  by (simp add: js_slice_def slice_index_def Let_def min_def)

lemma slice_last: "xs \<noteq> [] \<Longrightarrow> js_slice xs (- 1) None = [last xs]"
proof -
  assume ne: "xs \<noteq> []"
  then have xs: "xs = butlast xs @ [last xs]" by simp
  have "drop (length xs - 1) xs = drop (length (butlast xs)) (butlast xs @ [last xs])"
    using xs by simp
  then have "drop (length xs - 1) xs = [last xs]" by simp
  moreover from ne have "slice_index (length xs) (- 1) = length xs - 1"
    by (cases xs) (simp_all add: slice_index_def)
  ultimately show ?thesis using ne by (simp add: js_slice_def Let_def)
qed

section \<open>Properties of the multipart stream parser\<close>

lemma part_start_boundary: "suffix boundary pre \<Longrightarrow> part_start boundary pre"
  by (simp add: part_start_def)

lemma part_start_closing: "js_trim t = ''--'' \<Longrightarrow> part_start boundary (x @ boundary @ t)"
proof -
  assume t: "js_trim t = ''--''"
  have "t \<in> set (suffixes (x @ boundary @ t))"
    by (simp add: suffix_def)
  moreover have "suffix (boundary @ t) (x @ boundary @ t)"
    by (simp add: suffix_def)
  ultimately show ?thesis using t unfolding part_start_def list_ex_iff by blast
qed

lemma part_start_append:
  "part_start boundary consumed \<Longrightarrow> pre = [] \<or> suffix boundary pre \<Longrightarrow>
   part_start boundary (consumed @ pre)"
proof (cases "pre = []")
  case True
  moreover assume "part_start boundary consumed"
  ultimately show ?thesis by simp
next
  case False
  moreover assume "pre = [] \<or> suffix boundary pre"
  ultimately have "suffix boundary (consumed @ pre)" by (auto simp: suffix_def)
  then show ?thesis by (rule part_start_boundary)
qed

lemma part_body_payload:
  assumes "js_includes seg HEADER_SEPARATOR"
  shows "\<exists>header payload. seg = header @ HEADER_SEPARATOR @ payload \<and>
           js_indexOf seg HEADER_SEPARATOR = int (length header) \<and>
           part_body seg = js_trim payload"
proof -
  from assms have "js_indexOf seg HEADER_SEPARATOR \<noteq> - 1" by (simp add: js_includes_def)
  from indexOf_found[OF this] obtain i where
    i: "js_indexOf seg HEADER_SEPARATOR = int i" "i \<le> length seg"
       "prefix HEADER_SEPARATOR (drop i seg)"
    by blast
  from i(3) obtain payload where p: "drop i seg = HEADER_SEPARATOR @ payload"
    by (auto simp: prefix_def)
  have seg: "seg = take i seg @ HEADER_SEPARATOR @ payload"
    using p append_take_drop_id[of i seg] by metis
  have "drop (i + length HEADER_SEPARATOR) seg = drop (length HEADER_SEPARATOR) (drop i seg)"
    by (simp add: add.commute)
  with p have d: "drop (i + length HEADER_SEPARATOR) seg = payload" by simp
  have "js_slice seg (int i + int (length HEADER_SEPARATOR)) None =
        drop (i + length HEADER_SEPARATOR) seg"
    using slice_drop[of seg "i + length HEADER_SEPARATOR"] by simp
  with d i(1) have "part_body seg = js_trim payload" by (simp add: part_body_def)
  moreover from i(2) have "length (take i seg) = i" by simp
  ultimately show ?thesis using seg i(1) by metis
qed

lemma step_emitted:
  assumes "readStreamChunk_step boundary buffer0 textChunk = (Some chunkBodies, buffer')"
    and "boundary \<noteq> []" and "b \<in> set chunkBodies" and "part_start boundary consumed"
  shows "\<exists>pre seg post. consumed @ buffer0 @ textChunk = pre @ seg @ boundary @ post \<and>
           part_start boundary pre \<and> js_indexOf seg boundary = - 1 \<and> js_trim seg \<noteq> [] \<and>
           b = part_body seg"
proof -
  let ?buffer = "buffer0 @ textChunk"
  from assms(1) have found: "js_indexOf ?buffer boundary > - 1"
    by (auto simp: readStreamChunk_step_def Let_def split: if_splits)
  then obtain i where i: "js_lastIndexOf ?buffer boundary = int i" "i \<le> length ?buffer"
    "prefix boundary (drop i ?buffer)"
    using lastIndexOf_found by blast
  from i(3) obtain rest where rest: "drop i ?buffer = boundary @ rest" by (auto simp: prefix_def)
  have buf: "?buffer = take i ?buffer @ boundary @ rest"
    using rest append_take_drop_id[of i ?buffer] by metis
  from assms(1) found i have "chunkBodies = map part_body
      (filter (\<lambda>chunk. length (js_trim chunk) > 0) (js_split (take i ?buffer) boundary))"
    by (auto simp: readStreamChunk_step_def Let_def slice_take split: if_splits)
  with assms(3) obtain seg
    where seg: "seg \<in> set (js_split (take i ?buffer) boundary)" "js_trim seg \<noteq> []"
      "b = part_body seg"
    by auto
  from split_member[OF assms(2) seg(1)] obtain pre post
    where eq: "take i ?buffer @ boundary = pre @ seg @ boundary @ post"
      and st: "pre = [] \<or> suffix boundary pre"
      and none: "js_indexOf seg boundary = - 1"
    by blast
  from eq buf have "?buffer = pre @ seg @ boundary @ (post @ rest)"
    by (metis append.assoc)
  then have "consumed @ buffer0 @ textChunk = (consumed @ pre) @ seg @ boundary @ (post @ rest)"
    by simp
  moreover from assms(4) st have "part_start boundary (consumed @ pre)"
    by (rule part_start_append)
  ultimately show ?thesis using none seg(2,3) by blast
qed

lemma step_consumed:
  assumes "readStreamChunk_step boundary buffer0 textChunk = (r, buffer')"
    and "part_start boundary consumed"
  shows "\<exists>consumed'. consumed @ buffer0 @ textChunk = consumed' @ buffer' \<and>
           part_start boundary consumed'"
proof -
  define buffer where "buffer = buffer0 @ textChunk"
  show ?thesis
  proof (cases "js_indexOf buffer boundary > - 1")
    case False
    with assms(1) have "buffer' = buffer0 @ textChunk"
      by (auto simp: readStreamChunk_step_def Let_def buffer_def)
    with assms(2) show ?thesis by blast
  next
    case True
    from True obtain i where i: "js_lastIndexOf buffer boundary = int i"
      "prefix boundary (drop i buffer)"
      using lastIndexOf_found by blast
    from i(2) obtain rest where rest: "drop i buffer = boundary @ rest" by (auto simp: prefix_def)
    have buf: "buffer = take i buffer @ boundary @ rest"
      using rest append_take_drop_id[of i buffer] by metis
    have "drop (i + length boundary) buffer = drop (length boundary) (drop i buffer)"
      by (simp add: add.commute)
    with rest have d: "drop (i + length boundary) buffer = rest" by simp
    have "js_slice buffer (int i + int (length boundary)) None = drop (i + length boundary) buffer"
      using slice_drop[of buffer "i + length boundary"] by simp
    with d have eq: "js_slice buffer (int i + int (length boundary)) None = rest" by simp
    have "readStreamChunk_step boundary buffer0 textChunk =
          (if js_indexOf buffer boundary > - 1 then
             (let lastBoundaryIndex = js_lastIndexOf buffer boundary;
                  fullResponses = js_slice buffer 0 (Some lastBoundaryIndex);
                  chunkBodies =
                    map part_body
                      (filter (\<lambda>chunk. length (js_trim chunk) > 0) (js_split fullResponses boundary));
                  buffer1 = js_slice buffer (lastBoundaryIndex + int (length boundary)) None;
                  buffer2 = (if js_trim buffer1 = ''--'' then [] else buffer1)
              in (if length chunkBodies > 0 then Some chunkBodies else None, buffer2))
           else (None, buffer))"
      unfolding readStreamChunk_step_def buffer_def Let_def by (rule refl)
    with assms(1) True i(1) eq
    have b': "buffer' = (if js_trim rest = ''--'' then [] else rest)"
      by (auto simp: Let_def split: if_splits)
    show ?thesis
    proof (cases "js_trim rest = ''--''")
      case closing: True
      from buf have "consumed @ buffer = ((consumed @ take i buffer) @ boundary @ rest) @ []"
        by simp
      moreover from closing have "part_start boundary ((consumed @ take i buffer) @ boundary @ rest)"
        by (rule part_start_closing)
      ultimately show ?thesis using b' closing unfolding buffer_def by metis
    next
      case False
      from buf have "consumed @ buffer = (consumed @ take i buffer @ boundary) @ rest"
        by simp
      moreover have "part_start boundary (consumed @ take i buffer @ boundary)"
        by (rule part_start_boundary) (simp add: suffix_def)
      ultimately show ?thesis using b' False unfolding buffer_def by metis
    qed
  qed
qed

lemma step_no_boundary:
  "js_indexOf (buffer0 @ textChunk) boundary = - 1 \<Longrightarrow>
   readStreamChunk_step boundary buffer0 textChunk = (None, buffer0 @ textChunk)"
  by (simp add: readStreamChunk_step_def)

lemma loop_append:
  "readStreamChunk_loop boundary buffer (chunks @ later) =
   readStreamChunk_loop boundary buffer chunks @
   readStreamChunk_loop boundary (readStreamChunk_buffer boundary buffer chunks) later"
  by (induction chunks arbitrary: buffer) (auto split: prod.splits option.splits)

lemma loop_emitted:
  assumes "boundary \<noteq> []"
  shows "batch \<in> set (readStreamChunk_loop boundary buffer chunks) \<Longrightarrow> b \<in> set batch \<Longrightarrow>
     part_start boundary consumed \<Longrightarrow>
     \<exists>n pre seg post. n \<le> length chunks \<and>
        consumed @ buffer @ concat (take n chunks) = pre @ seg @ boundary @ post \<and>
        part_start boundary pre \<and> js_indexOf seg boundary = - 1 \<and> js_trim seg \<noteq> [] \<and>
        b = part_body seg"
proof (induction chunks arbitrary: buffer consumed)
  case Nil
  then show ?case by simp
next
  case (Cons c cs)
  obtain r buffer' where step: "readStreamChunk_step boundary buffer c = (r, buffer')"
    by (cases "readStreamChunk_step boundary buffer c")
  from step_consumed[OF step Cons.prems(3)] obtain consumed' where
    cons: "consumed @ buffer @ c = consumed' @ buffer'" and st: "part_start boundary consumed'"
    by blast
  show ?case
  proof (cases "r = Some batch")
    case True
    with step have "readStreamChunk_step boundary buffer c = (Some batch, buffer')" by simp
    from step_emitted[OF this assms Cons.prems(2,3)] obtain pre seg post
      where "consumed @ buffer @ c = pre @ seg @ boundary @ post" "part_start boundary pre"
        "js_indexOf seg boundary = - 1" "js_trim seg \<noteq> []" "b = part_body seg"
      by blast
    then have "Suc 0 \<le> length (c # cs) \<and>
        consumed @ buffer @ concat (take (Suc 0) (c # cs)) = pre @ seg @ boundary @ post \<and>
        part_start boundary pre \<and> js_indexOf seg boundary = - 1 \<and> js_trim seg \<noteq> [] \<and>
        b = part_body seg"
      by simp
    then show ?thesis by blast
  next
    case False
    with Cons.prems(1) step have "batch \<in> set (readStreamChunk_loop boundary buffer' cs)"
      by (auto split: option.splits)
    from Cons.IH[OF this Cons.prems(2) st] obtain n pre seg post where
      n: "n \<le> length cs" "consumed' @ buffer' @ concat (take n cs) = pre @ seg @ boundary @ post"
         "part_start boundary pre" "js_indexOf seg boundary = - 1" "js_trim seg \<noteq> []"
         "b = part_body seg"
      by blast
    have "consumed @ buffer @ concat (take (Suc n) (c # cs)) =
          (consumed @ buffer @ c) @ concat (take n cs)" by simp
    also have "\<dots> = consumed' @ buffer' @ concat (take n cs)" using cons by simp
    also have "\<dots> = pre @ seg @ boundary @ post" using n(2) by simp
    finally have "Suc n \<le> length (c # cs) \<and>
        consumed @ buffer @ concat (take (Suc n) (c # cs)) = pre @ seg @ boundary @ post \<and>
        part_start boundary pre \<and> js_indexOf seg boundary = - 1 \<and> js_trim seg \<noteq> [] \<and>
        b = part_body seg"
      using n by simp
    then show ?thesis by blast
  qed
qed

lemma loop_nonempty_batches:
  "batch \<in> set (readStreamChunk_loop boundary buffer chunks) \<Longrightarrow> batch \<noteq> []"
proof (induction chunks arbitrary: buffer)
  case Nil
  then show ?case by simp
next
  case (Cons c cs)
  obtain r buffer' where step: "readStreamChunk_step boundary buffer c = (r, buffer')"
    by (cases "readStreamChunk_step boundary buffer c")
  have "r = Some bs \<Longrightarrow> bs \<noteq> []" for bs
    using step by (auto simp: readStreamChunk_step_def Let_def split: if_splits)
  with Cons step show ?case by (auto split: option.splits)
qed

lemma parse_bodies_length: "parse_bodies parse vs = Inr ps \<Longrightarrow> length ps = length vs"
  by (induction vs arbitrary: ps) (auto split: sum.splits)

lemma payload_data_length: "payload_data ps = Inr ds \<Longrightarrow> length ds = length ps"
  by (induction ps arbitrary: ds) (auto split: sum.splits)

lemma sample_batches:
  "readStreamChunk_loop sample_boundary [] sample_chunks = [[sample_first_text], [sample_second_text]]"
  by code_simp

text \<open>
  Claim C2, as amended. Every part body that the multipart parser emits is the body of a
  whole part: a segment \<open>seg\<close> of the text received up to then (the first \<open>n\<close> text
  chunks) that starts where a part starts (at the start of the text, right after a
  boundary, or after the closing \<open>--\<close> that follows one), holds no boundary, is not blank,
  and is followed by a boundary that has been received. For every segment that holds the
  header separator, the body is all the text after the first header separator, trimmed.
  When the text chunks are used up nothing more is emitted, whatever the buffer holds; in
  particular a last chunk that brings no boundary into the buffer adds nothing to the
  output.
\<close>

theorem parser_emits_whole_parts:
  assumes "boundary \<noteq> []"
  shows "(\<forall>batch \<in> set (fst (readStreamChunk chunks failure boundary)). \<forall>b \<in> set batch.
            \<exists>n pre seg post. n \<le> length chunks \<and>
              concat (take n chunks) = pre @ seg @ boundary @ post \<and>
              part_start boundary pre \<and> js_indexOf seg boundary = - 1 \<and> js_trim seg \<noteq> [] \<and>
              b = part_body seg) \<and>
         (\<forall>seg. js_includes seg HEADER_SEPARATOR \<longrightarrow>
            (\<exists>header payload. seg = header @ HEADER_SEPARATOR @ payload \<and>
               js_indexOf seg HEADER_SEPARATOR = int (length header) \<and>
               part_body seg = js_trim payload)) \<and>
         fst (readStreamChunk [] failure boundary) = [] \<and>
         (js_indexOf (readStreamChunk_buffer boundary [] chunks @ textChunk) boundary = - 1 \<longrightarrow>
            fst (readStreamChunk (chunks @ [textChunk]) failure boundary) =
            fst (readStreamChunk chunks failure boundary))"
proof (intro conjI ballI allI impI)
  fix batch b
  assume "batch \<in> set (fst (readStreamChunk chunks failure boundary))" "b \<in> set batch"
  then have "batch \<in> set (readStreamChunk_loop boundary [] chunks)" "b \<in> set batch"
    by (simp_all add: readStreamChunk_def)
  moreover have "part_start boundary []" by (simp add: part_start_def)
  ultimately have "\<exists>n pre seg post. n \<le> length chunks \<and>
      [] @ [] @ concat (take n chunks) = pre @ seg @ boundary @ post \<and>
      part_start boundary pre \<and> js_indexOf seg boundary = - 1 \<and> js_trim seg \<noteq> [] \<and>
      b = part_body seg"
    by (rule loop_emitted[OF assms])
  then show "\<exists>n pre seg post. n \<le> length chunks \<and>
      concat (take n chunks) = pre @ seg @ boundary @ post \<and>
      part_start boundary pre \<and> js_indexOf seg boundary = - 1 \<and> js_trim seg \<noteq> [] \<and>
      b = part_body seg"
    by simp
next
  fix seg
  assume "js_includes seg HEADER_SEPARATOR"
  then show "\<exists>header payload. seg = header @ HEADER_SEPARATOR @ payload \<and>
      js_indexOf seg HEADER_SEPARATOR = int (length header) \<and> part_body seg = js_trim payload"
    by (rule part_body_payload)
next
  show "fst (readStreamChunk [] failure boundary) = []" by (simp add: readStreamChunk_def)
next
  assume "js_indexOf (readStreamChunk_buffer boundary [] chunks @ textChunk) boundary = - 1"
  then have "readStreamChunk_loop boundary (readStreamChunk_buffer boundary [] chunks) [textChunk] = []"
    by (simp add: step_no_boundary)
  then show "fst (readStreamChunk (chunks @ [textChunk]) failure boundary) =
      fst (readStreamChunk chunks failure boundary)"
    by (simp add: readStreamChunk_def loop_append)
qed

theorem parser_emits_whole_parts_witness:
  "sample_boundary \<noteq> [] \<and>
   [sample_first_text] \<in> set (fst (readStreamChunk sample_chunks None sample_boundary)) \<and>
   (\<exists>n pre seg post. n \<le> length sample_chunks \<and>
      concat (take n sample_chunks) = pre @ seg @ sample_boundary @ post \<and>
      part_start sample_boundary pre \<and> js_indexOf seg sample_boundary = - 1 \<and>
      js_trim seg \<noteq> [] \<and> sample_first_text = part_body seg) \<and>
   js_includes sample_first_part HEADER_SEPARATOR \<and>
   (\<exists>header payload. sample_first_part = header @ HEADER_SEPARATOR @ payload \<and>
      js_indexOf sample_first_part HEADER_SEPARATOR = int (length header) \<and>
      part_body sample_first_part = js_trim payload) \<and>
   part_body sample_first_part = sample_first_text \<and>
   js_indexOf (readStreamChunk_buffer sample_boundary [] sample_chunks @ sample_first_text)
     sample_boundary = - 1 \<and>
   fst (readStreamChunk (sample_chunks @ [sample_first_text]) None sample_boundary) =
   fst (readStreamChunk sample_chunks None sample_boundary)"
proof -
  have ne: "sample_boundary \<noteq> []" by (simp add: sample_boundary_def)
  have mem: "[sample_first_text] \<in> set (fst (readStreamChunk sample_chunks None sample_boundary))"
    by (simp add: readStreamChunk_def sample_batches)
  have inc: "js_includes sample_first_part HEADER_SEPARATOR"
    by code_simp
  have body: "part_body sample_first_part = sample_first_text"
    by code_simp
  have none: "js_indexOf (readStreamChunk_buffer sample_boundary [] sample_chunks @ sample_first_text)
     sample_boundary = - 1"
    by code_simp
  note parts = parser_emits_whole_parts[OF ne, of sample_chunks None sample_first_text]
  from parts mem have a: "\<exists>n pre seg post. n \<le> length sample_chunks \<and>
      concat (take n sample_chunks) = pre @ seg @ sample_boundary @ post \<and>
      part_start sample_boundary pre \<and> js_indexOf seg sample_boundary = - 1 \<and>
      js_trim seg \<noteq> [] \<and> sample_first_text = part_body seg"
    by auto
  from parts inc have b: "\<exists>header payload. sample_first_part = header @ HEADER_SEPARATOR @ payload \<and>
      js_indexOf sample_first_part HEADER_SEPARATOR = int (length header) \<and>
      part_body sample_first_part = js_trim payload"
    by blast
  from parts none have c: "fst (readStreamChunk (sample_chunks @ [sample_first_text]) None sample_boundary) =
      fst (readStreamChunk sample_chunks None sample_boundary)"
    by blast
  from ne mem a inc b body none c show ?thesis by blast
qed

text \<open>
  The claim as stated fails for a part without a header block. The stream holds one part,
  the payload \<open>{"a":1}\<close> right after the boundary; the part holds no header separator, the
  slice starts at \<open>-1 + 4\<close>, and the parser emits the payload without its first three
  characters.
\<close>

theorem parser_headerless_part_counterexample:
  "sample_headerless_chunk = sample_boundary @ sample_headerless_part @ sample_boundary @ ''--'' \<and>
   \<not> js_includes sample_headerless_part HEADER_SEPARATOR \<and>
   readStreamChunk [sample_headerless_chunk] None sample_boundary = ([[''\":1}'']], None) \<and>
   sample_headerless_part = ''{\"a'' @ ''\":1}''"
  by code_simp

text \<open>
  Claim C10. Every batch that the multipart parser yields is a non-empty list, so the
  \<open>dataArray\<close> that the merger builds from it (one element for each part body) is not
  empty either, and \<open>dataArray.slice(-1)[0].hasNext\<close> reads the \<open>hasNext\<close> of its last
  element: the read never throws.
\<close>

theorem parser_batches_nonempty:
  assumes "chunkBodies \<in> set (fst (readStreamChunk textChunks failure boundary))"
    and "parse_bodies parse chunkBodies = Inr payloads"
    and "payload_data payloads = Inr dataArray"
  shows "chunkBodies \<noteq> [] \<and> dataArray \<noteq> [] \<and>
         last_hasNext dataArray = Inr (d_hasNext (last dataArray))"
proof -
  from assms(1) have ne: "chunkBodies \<noteq> []"
    by (auto simp: readStreamChunk_def dest: loop_nonempty_batches)
  from assms(2,3) have "length dataArray = length chunkBodies"
    by (simp add: parse_bodies_length payload_data_length)
  with ne have d: "dataArray \<noteq> []" by auto
  then show ?thesis using ne by (simp add: last_hasNext_def slice_last)
qed

theorem parser_batches_nonempty_witness:
  "[sample_second_text] \<in> set (fst (readStreamChunk sample_chunks None sample_boundary)) \<and>
   parse_bodies sample_JSON_parse [sample_second_text] = Inr [sample_second_payload] \<and>
   payload_data [sample_second_payload] =
     Inr [\<lparr>d_data = JObj [(''s'', JObj [(''b'', JNum 2)])], d_errors = JUndefined,
           d_extensions = JObj [(''e'', JNum 2)], d_hasNext = JBool False\<rparr>] \<and>
   last_hasNext [\<lparr>d_data = JObj [(''s'', JObj [(''b'', JNum 2)])], d_errors = JUndefined,
                  d_extensions = JObj [(''e'', JNum 2)], d_hasNext = JBool False\<rparr>] =
     Inr (JBool False)"
proof -
  have mem: "[sample_second_text] \<in> set (fst (readStreamChunk sample_chunks None sample_boundary))"
    by (simp add: readStreamChunk_def sample_batches)
  have p: "parse_bodies sample_JSON_parse [sample_second_text] = Inr [sample_second_payload]"
    by code_simp
  have d: "payload_data [sample_second_payload] =
     Inr [\<lparr>d_data = JObj [(''s'', JObj [(''b'', JNum 2)])], d_errors = JUndefined,
           d_extensions = JObj [(''e'', JNum 2)], d_hasNext = JBool False\<rparr>]"
    by code_simp
  from parser_batches_nonempty[OF mem p d] mem p d show ?thesis by simp
qed

section \<open>Path lift\<close>

text \<open>
  Claim C9. For every path and every data value, reading the structure that
  \<open>buildDataObjectByPath\<close> builds (an array for a numeric index, an object for a string
  key) at the same path gives back exactly the data.
\<close>

theorem path_lift_round_trip:
  "project_path path (buildDataObjectByPath path d) = Some d"
proof (induction path)
  case Nil
  show ?case by simp
next
  case (Cons p path)
  then show ?case by (cases p) (simp_all add: nth_append)
qed

theorem path_lift_round_trip_witness:
  "project_path [Key ''shop'', Index 1, Key ''name'']
     (JObj [(''shop'', JArr [JUndefined, JObj [(''name'', JStr ''Shop 1'')]])]) =
   Some (JStr ''Shop 1'')"
  using path_lift_round_trip[of "[Key ''shop'', Index 1, Key ''name'']" "JStr ''Shop 1''"]
  by (simp add: numeral_eq_Suc)

section \<open>Async calls\<close>

lemma await_async [simp]: "await (async run) = run"
  by (cases run) (simp_all add: await_def async_def)

lemma apfst_await_async [simp]: "apfst await (apfst async p) = p"
  by (cases p) simp

lemma async_Inl: "async (Inl e) = Returns (Rejected e)"
  by (simp add: async_def)

lemma async_Inr: "async (Inr v) = Returns (Fulfilled v)"
  by (simp add: async_def)

section \<open>The guards on the operation\<close>

lemma format_request_guard:
  "formatErrorMessage
     ''This operation will result in a streamable response - use requestStream() instead.'' =
   ''GraphQL Client: This operation will result in a streamable response - use requestStream() instead.''"
  by (simp add: formatErrorMessage_def CLIENT_def)

lemma format_stream_guard:
  "formatErrorMessage
     ''This operation does not result in a streamable response - use request() instead.'' =
   ''GraphQL Client: This operation does not result in a streamable response - use request() instead.''"
  by (simp add: formatErrorMessage_def CLIENT_def)

lemma sample_defer_matches: "DEFER_OPERATION_REGEX_test sample_defer_operation"
  by code_simp

lemma sample_plain_no_match: "\<not> DEFER_OPERATION_REGEX_test sample_plain_operation"
  by code_simp

text \<open>
  Claim C5, as amended. When the operation string matches the defer expression, the call
  of \<open>request\<close> returns a promise that is rejected with its guard error, and the world is
  unchanged (no call of the transport); when it does not match, the call of
  \<open>requestStream\<close> returns a promise that is rejected with its guard error, and the world is
  unchanged. Neither call throws.
\<close>

theorem defer_guards_reject_before_fetch:
  "(DEFER_OPERATION_REGEX_test operation \<longrightarrow>
      request config customFetchApi operation options w =
        (Returns (Rejected (Error ''GraphQL Client: This operation will result in a streamable response - use requestStream() instead.'' NoCause)), w)) \<and>
   (\<not> DEFER_OPERATION_REGEX_test operation \<longrightarrow>
      requestStream ext config customFetchApi operation options w =
        (Returns (Rejected (Error ''GraphQL Client: This operation does not result in a streamable response - use request() instead.'' NoCause)), w))"
  by (simp add: request_def requestStream_def async_Inl format_request_guard format_stream_guard)

theorem defer_guards_reject_before_fetch_witness:
  "DEFER_OPERATION_REGEX_test sample_defer_operation \<and>
   request \<lparr>cfg_retries = 0\<rparr> (\<lambda>k. Rejects ''unreachable'') sample_defer_operation
       \<lparr>req_variables = NoVariables, req_retries = None\<rparr> \<lparr>calls = 0\<rparr> =
     (Returns (Rejected (Error ''GraphQL Client: This operation will result in a streamable response - use requestStream() instead.'' NoCause)), \<lparr>calls = 0\<rparr>) \<and>
   \<not> DEFER_OPERATION_REGEX_test sample_plain_operation \<and>
   requestStream sample_externals \<lparr>cfg_retries = 0\<rparr> (\<lambda>k. Rejects ''unreachable'')
       sample_plain_operation \<lparr>req_variables = NoVariables, req_retries = None\<rparr> \<lparr>calls = 0\<rparr> =
     (Returns (Rejected (Error ''GraphQL Client: This operation does not result in a streamable response - use request() instead.'' NoCause)), \<lparr>calls = 0\<rparr>)"
  using defer_guards_reject_before_fetch[of sample_defer_operation "\<lparr>cfg_retries = 0\<rparr>"
          "\<lambda>k. Rejects ''unreachable''" "\<lparr>req_variables = NoVariables, req_retries = None\<rparr>"
          "\<lparr>calls = 0\<rparr>" sample_externals]
        defer_guards_reject_before_fetch[of sample_plain_operation "\<lparr>cfg_retries = 0\<rparr>"
          "\<lambda>k. Rejects ''unreachable''" "\<lparr>req_variables = NoVariables, req_retries = None\<rparr>"
          "\<lparr>calls = 0\<rparr>" sample_externals]
        sample_defer_matches sample_plain_no_match
  by simp

text \<open>
  The claim as stated fails: \<open>request\<close> and \<open>requestStream\<close> are async functions. For an
  operation with \<open>@defer\<close> the call of \<open>request\<close> does not throw; it returns a promise, which
  is rejected with the guard error. Likewise the call of \<open>requestStream\<close> for an operation
  without \<open>@defer\<close>.
\<close>

theorem defer_guards_synchronous_throw_counterexample:
  "DEFER_OPERATION_REGEX_test sample_defer_operation \<and>
   \<not> throws_synchronously
       (fst (request \<lparr>cfg_retries = 0\<rparr> (\<lambda>k. Rejects ''unreachable'') sample_defer_operation
               \<lparr>req_variables = NoVariables, req_retries = None\<rparr> \<lparr>calls = 0\<rparr>)) \<and>
   fst (request \<lparr>cfg_retries = 0\<rparr> (\<lambda>k. Rejects ''unreachable'') sample_defer_operation
          \<lparr>req_variables = NoVariables, req_retries = None\<rparr> \<lparr>calls = 0\<rparr>) =
     Returns (Rejected (Error ''GraphQL Client: This operation will result in a streamable response - use requestStream() instead.'' NoCause)) \<and>
   \<not> DEFER_OPERATION_REGEX_test sample_plain_operation \<and>
   \<not> throws_synchronously
       (fst (requestStream sample_externals \<lparr>cfg_retries = 0\<rparr> (\<lambda>k. Rejects ''unreachable'')
               sample_plain_operation \<lparr>req_variables = NoVariables, req_retries = None\<rparr>
               \<lparr>calls = 0\<rparr>)) \<and>
   fst (requestStream sample_externals \<lparr>cfg_retries = 0\<rparr> (\<lambda>k. Rejects ''unreachable'')
          sample_plain_operation \<lparr>req_variables = NoVariables, req_retries = None\<rparr>
          \<lparr>calls = 0\<rparr>) =
     Returns (Rejected (Error ''GraphQL Client: This operation does not result in a streamable response - use request() instead.'' NoCause))"
  using sample_defer_matches sample_plain_no_match
  by (simp add: request_def requestStream_def async_Inl format_request_guard format_stream_guard)

section \<open>Properties of the retry executor\<close>

lemma format_attempted:
  "formatErrorMessage (CHR ''A'' # x) = ''GraphQL Client: '' @ CHR ''A'' # x"
  by (simp add: formatErrorMessage_def CLIENT_def)

lemma httpFetch_retry:
  "retriable (customFetchApi (calls w)) \<Longrightarrow> attempt \<le> maxRetries \<Longrightarrow>
   httpFetch customFetchApi attempt maxRetries w =
   httpFetch customFetchApi (attempt + 1) maxRetries (w\<lparr>calls := calls w + 1\<rparr>)"
  by (subst httpFetch.simps) (auto simp: Let_def split: outcome.splits)

lemma httpFetch_last:
  "maxRetries < attempt \<Longrightarrow>
   httpFetch customFetchApi attempt maxRetries w =
   (final_result maxRetries (customFetchApi (calls w)), w\<lparr>calls := calls w + 1\<rparr>)"
  by (subst httpFetch.simps) (auto simp: Let_def format_attempted split: outcome.splits)

lemma httpFetch_not_retriable:
  "customFetchApi (calls w) = Resolves r \<Longrightarrow> status r \<noteq> 429 \<Longrightarrow> status r \<noteq> 503 \<Longrightarrow>
   httpFetch customFetchApi attempt maxRetries w = (Inr r, w\<lparr>calls := calls w + 1\<rparr>)"
  by (subst httpFetch.simps) (simp add: Let_def)

lemma httpFetch_retries:
  "(\<And>k. k < j \<Longrightarrow> retriable (customFetchApi (calls w + k))) \<Longrightarrow> attempt + int j \<le> maxRetries + 1 \<Longrightarrow>
   httpFetch customFetchApi attempt maxRetries w =
   httpFetch customFetchApi (attempt + int j) maxRetries (w\<lparr>calls := calls w + j\<rparr>)"
proof (induction j arbitrary: attempt w)
  case 0
  then show ?case by simp
next
  case (Suc j)
  from Suc.prems(1)[of 0] have first: "retriable (customFetchApi (calls w))" by simp
  from Suc.prems(2) have le: "attempt \<le> maxRetries" by simp
  have later: "\<And>k. k < j \<Longrightarrow> retriable (customFetchApi (calls (w\<lparr>calls := calls w + 1\<rparr>) + k))"
  proof -
    fix k assume "k < j"
    then have "retriable (customFetchApi (calls w + Suc k))" by (intro Suc.prems(1)) simp
    then show "retriable (customFetchApi (calls (w\<lparr>calls := calls w + 1\<rparr>) + k))" by simp
  qed
  have "httpFetch customFetchApi attempt maxRetries w =
        httpFetch customFetchApi (attempt + 1) maxRetries (w\<lparr>calls := calls w + 1\<rparr>)"
    using first le by (rule httpFetch_retry)
  also have "\<dots> = httpFetch customFetchApi (attempt + 1 + int j) maxRetries
                      (w\<lparr>calls := calls w + 1\<rparr>\<lparr>calls := calls (w\<lparr>calls := calls w + 1\<rparr>) + j\<rparr>)"
    using later Suc.prems(2) by (intro Suc.IH) auto
  finally show ?case by (simp add: add.assoc)
qed

lemma httpFetch_stop:
  assumes "\<not> (retriable (customFetchApi (calls w)) \<and> attempt \<le> maxRetries)"
  shows "snd (httpFetch customFetchApi attempt maxRetries w) = w\<lparr>calls := calls w + 1\<rparr>"
proof (cases "customFetchApi (calls w)")
  case (Rejects msg)
  with assms have "\<not> attempt \<le> maxRetries" by simp
  with Rejects show ?thesis by (subst httpFetch.simps) (simp add: Let_def)
next
  case (Resolves r)
  with assms have "\<not> ((status r = 429 \<or> status r = 503) \<and> attempt \<le> maxRetries)" by simp
  with Resolves show ?thesis by (subst httpFetch.simps) (auto simp: Let_def)
qed

lemma httpFetch_calls:
  "calls (snd (httpFetch customFetchApi attempt maxRetries w)) \<le>
   calls w + nat (max 1 (maxRetries + 2 - attempt))"
proof (induction "nat (maxRetries + 1 - attempt)" arbitrary: attempt w)
  case 0
  then have "\<not> attempt \<le> maxRetries" by simp
  then show ?case by (simp add: httpFetch_stop)
next
  case (Suc n)
  show ?case
  proof (cases "retriable (customFetchApi (calls w)) \<and> attempt \<le> maxRetries")
    case True
    then have eq: "httpFetch customFetchApi attempt maxRetries w =
        httpFetch customFetchApi (attempt + 1) maxRetries (w\<lparr>calls := calls w + 1\<rparr>)"
      by (simp add: httpFetch_retry)
    from Suc(2) have "n = nat (maxRetries + 1 - (attempt + 1))" by simp
    from Suc(1)[OF this, of "w\<lparr>calls := calls w + 1\<rparr>"]
    have "calls (snd (httpFetch customFetchApi (attempt + 1) maxRetries (w\<lparr>calls := calls w + 1\<rparr>))) \<le>
          calls w + 1 + nat (max 1 (maxRetries + 2 - (attempt + 1)))" by simp
    moreover from True have "nat (max 1 (maxRetries + 2 - attempt)) = 1 + nat (max 1 (maxRetries + 2 - (attempt + 1)))"
      by (simp add: max_def) arith
    ultimately show ?thesis using eq by simp
  next
    case False
    then show ?thesis by (simp add: httpFetch_stop)
  qed
qed

section \<open>Validation of retries\<close>

lemma string_of_int_0: "string_of_int 0 = ''0''"
  by code_simp

lemma string_of_int_3: "string_of_int 3 = ''3''"
  by code_simp

lemma validateRetries_valid:
  "validateRetries None = Inr ()"
  "0 \<le> n \<Longrightarrow> n \<le> 3 \<Longrightarrow> validateRetries (Some n) = Inr ()"
  by (simp_all add: validateRetries_def MIN_RETRIES_def MAX_RETRIES_def)

lemma validateRetries_invalid:
  "n < 0 \<or> 3 < n \<Longrightarrow>
   validateRetries (Some n) = Inl (Error (invalid_retries_message n) NoCause)"
  by (auto simp: validateRetries_def MIN_RETRIES_def MAX_RETRIES_def CLIENT_def
                 string_of_int_0 string_of_int_3 invalid_retries_message_def)

lemma format_validation_message:
  "formatErrorMessage (invalid_retries_message n) = invalid_retries_message n"
  by (simp add: formatErrorMessage_def CLIENT_def invalid_retries_message_def)

lemma createGraphQLClient_valid:
  "createGraphQLClient opts = Inr config \<Longrightarrow> 0 \<le> cfg_retries config \<and> cfg_retries config \<le> 3"
  by (auto simp: createGraphQLClient_def validateRetries_def MIN_RETRIES_def MAX_RETRIES_def Let_def
           split: option.splits if_splits)

lemma fetch_unserialisable:
  "JSON_stringify_body operation (req_variables options) = Inl e \<Longrightarrow>
   fetch config customFetchApi operation options w = (Returns (Rejected e), w)"
  by (simp add: fetch_def async_Inl)

lemma fetch_invalid:
  "req_retries options = Some n \<Longrightarrow> n < 0 \<or> 3 < n \<Longrightarrow>
   JSON_stringify_body operation (req_variables options) = Inr envelope \<Longrightarrow>
   fetch config customFetchApi operation options w =
     (Returns (Rejected (Error (invalid_retries_message n) NoCause)), w)"
  by (simp add: fetch_def validateRetries_invalid async_Inl)

lemma fetch_invalid_world:
  "req_retries options = Some n \<Longrightarrow> n < 0 \<or> 3 < n \<Longrightarrow>
   snd (fetch config customFetchApi operation options w) = w"
  by (cases "JSON_stringify_body operation (req_variables options)")
     (simp_all add: fetch_def validateRetries_invalid)

lemma fetch_valid:
  "0 \<le> effective_retries config options \<Longrightarrow> effective_retries config options \<le> 3 \<Longrightarrow>
   JSON_stringify_body operation (req_variables options) = Inr envelope \<Longrightarrow>
   fetch config customFetchApi operation options w =
     apfst async (httpFetch customFetchApi 1 (effective_retries config options) w)"
  by (cases "req_retries options") (simp_all add: fetch_def effective_retries_def validateRetries_valid)

lemma fetch_valid_world:
  assumes "0 \<le> effective_retries config options" and "effective_retries config options \<le> 3"
  shows "snd (fetch config customFetchApi operation options w) = w \<or>
         snd (fetch config customFetchApi operation options w) =
         snd (httpFetch customFetchApi 1 (effective_retries config options) w)"
proof (cases "JSON_stringify_body operation (req_variables options)")
  case (Inl e)
  then show ?thesis by (simp add: fetch_unserialisable)
next
  case (Inr envelope)
  from fetch_valid[OF assms this] show ?thesis by simp
qed

lemma request_world:
  "snd (request config customFetchApi operation options w) = w \<or>
   snd (request config customFetchApi operation options w) =
   snd (fetch config customFetchApi operation options w)"
proof -
  obtain c w' where "fetch config customFetchApi operation options w = (c, w')"
    by (cases "fetch config customFetchApi operation options w")
  then show ?thesis by (simp add: request_def Let_def split: sum.splits)
qed

lemma requestStream_world:
  "snd (requestStream ext config customFetchApi operation options w) = w \<or>
   snd (requestStream ext config customFetchApi operation options w) =
   snd (fetch config customFetchApi operation options w)"
proof -
  obtain c w' where "fetch config customFetchApi operation options w = (c, w')"
    by (cases "fetch config customFetchApi operation options w")
  then show ?thesis by (simp add: requestStream_def split: sum.splits)
qed

text \<open>
  Claim C7. For a client that \<open>createGraphQLClient\<close> has built and a call of any entry point
  with the effective retries \<open>n\<close> (the call's override, else the client's): when \<open>n\<close> is
  outside 0..3 the world is unchanged, that is, the transport is not called; when \<open>n\<close> is
  within 0..3 the transport is called at most \<open>1 + n\<close> times.
\<close>

theorem retries_bound_transport_calls:
  assumes "createGraphQLClient opts = Inr config"
  shows "((effective_retries config options < 0 \<or> 3 < effective_retries config options) \<longrightarrow>
            snd (fetch config customFetchApi operation options w) = w \<and>
            snd (request config customFetchApi operation options w) = w \<and>
            snd (requestStream ext config customFetchApi operation options w) = w) \<and>
         (0 \<le> effective_retries config options \<and> effective_retries config options \<le> 3 \<longrightarrow>
            int (calls (snd (fetch config customFetchApi operation options w)))
              \<le> int (calls w) + 1 + effective_retries config options \<and>
            int (calls (snd (request config customFetchApi operation options w)))
              \<le> int (calls w) + 1 + effective_retries config options \<and>
            int (calls (snd (requestStream ext config customFetchApi operation options w)))
              \<le> int (calls w) + 1 + effective_retries config options)"
proof (intro conjI impI)
  assume bad: "effective_retries config options < 0 \<or> 3 < effective_retries config options"
  from createGraphQLClient_valid[OF assms] bad
  obtain n where n: "req_retries options = Some n" "n < 0 \<or> 3 < n"
    by (cases "req_retries options") (auto simp: effective_retries_def)
  then show f: "snd (fetch config customFetchApi operation options w) = w"
    by (rule fetch_invalid_world)
  from f request_world[of config customFetchApi operation options w]
  show "snd (request config customFetchApi operation options w) = w" by auto
  from f requestStream_world[of ext config customFetchApi operation options w]
  show "snd (requestStream ext config customFetchApi operation options w) = w" by auto
next
  assume ok: "0 \<le> effective_retries config options \<and> effective_retries config options \<le> 3"
  let ?n = "effective_retries config options"
  from ok have "snd (fetch config customFetchApi operation options w) = w \<or>
      snd (fetch config customFetchApi operation options w) = snd (httpFetch customFetchApi 1 ?n w)"
    by (simp add: fetch_valid_world)
  moreover have "calls (snd (httpFetch customFetchApi 1 ?n w)) \<le> calls w + nat (max 1 (?n + 2 - 1))"
    by (rule httpFetch_calls)
  ultimately have f: "int (calls (snd (fetch config customFetchApi operation options w)))
      \<le> int (calls w) + 1 + ?n"
    using ok by (auto simp: max_def)
  then show "int (calls (snd (fetch config customFetchApi operation options w)))
      \<le> int (calls w) + 1 + ?n" .
  from f ok request_world[of config customFetchApi operation options w]
  show "int (calls (snd (request config customFetchApi operation options w)))
      \<le> int (calls w) + 1 + ?n" by auto
  from f ok requestStream_world[of ext config customFetchApi operation options w]
  show "int (calls (snd (requestStream ext config customFetchApi operation options w)))
      \<le> int (calls w) + 1 + ?n" by auto
qed

theorem retries_bound_transport_calls_witness:
  "createGraphQLClient \<lparr>opt_retries = None\<rparr> = Inr \<lparr>cfg_retries = 0\<rparr> \<and>
   effective_retries \<lparr>cfg_retries = 0\<rparr> \<lparr>req_variables = NoVariables, req_retries = Some 4\<rparr> = 4 \<and>
   snd (fetch \<lparr>cfg_retries = 0\<rparr> (\<lambda>k. Resolves sample_unavailable) sample_plain_operation
          \<lparr>req_variables = NoVariables, req_retries = Some 4\<rparr> \<lparr>calls = 0\<rparr>) = \<lparr>calls = 0\<rparr> \<and>
   snd (request \<lparr>cfg_retries = 0\<rparr> (\<lambda>k. Resolves sample_unavailable) sample_plain_operation
          \<lparr>req_variables = NoVariables, req_retries = Some 4\<rparr> \<lparr>calls = 0\<rparr>) = \<lparr>calls = 0\<rparr> \<and>
   snd (requestStream sample_externals \<lparr>cfg_retries = 0\<rparr> (\<lambda>k. Resolves sample_unavailable)
          sample_defer_operation \<lparr>req_variables = NoVariables, req_retries = Some 4\<rparr> \<lparr>calls = 0\<rparr>) = \<lparr>calls = 0\<rparr> \<and>
   effective_retries \<lparr>cfg_retries = 0\<rparr> \<lparr>req_variables = NoVariables, req_retries = Some 2\<rparr> = 2 \<and>
   int (calls (snd (fetch \<lparr>cfg_retries = 0\<rparr> (\<lambda>k. Resolves sample_unavailable)
          sample_plain_operation \<lparr>req_variables = NoVariables, req_retries = Some 2\<rparr> \<lparr>calls = 0\<rparr>))) \<le> 3 \<and>
   int (calls (snd (request \<lparr>cfg_retries = 0\<rparr> (\<lambda>k. Resolves sample_unavailable)
          sample_plain_operation \<lparr>req_variables = NoVariables, req_retries = Some 2\<rparr> \<lparr>calls = 0\<rparr>))) \<le> 3 \<and>
   int (calls (snd (requestStream sample_externals \<lparr>cfg_retries = 0\<rparr>
          (\<lambda>k. Resolves sample_unavailable) sample_defer_operation
          \<lparr>req_variables = NoVariables, req_retries = Some 2\<rparr> \<lparr>calls = 0\<rparr>))) \<le> 3"
proof -
  have c: "createGraphQLClient \<lparr>opt_retries = None\<rparr> = Inr \<lparr>cfg_retries = 0\<rparr>"
    by (simp add: createGraphQLClient_def validateRetries_valid)
  have e4: "effective_retries \<lparr>cfg_retries = 0\<rparr> \<lparr>req_variables = NoVariables, req_retries = Some 4\<rparr> = 4"
    and e2: "effective_retries \<lparr>cfg_retries = 0\<rparr> \<lparr>req_variables = NoVariables, req_retries = Some 2\<rparr> = 2"
    by (simp_all add: effective_retries_def)
  from retries_bound_transport_calls[OF c, of "\<lparr>req_variables = NoVariables, req_retries = Some 4\<rparr>"
         "\<lambda>k. Resolves sample_unavailable" sample_plain_operation "\<lparr>calls = 0\<rparr>" sample_externals]
       retries_bound_transport_calls[OF c, of "\<lparr>req_variables = NoVariables, req_retries = Some 4\<rparr>"
         "\<lambda>k. Resolves sample_unavailable" sample_defer_operation "\<lparr>calls = 0\<rparr>" sample_externals]
       retries_bound_transport_calls[OF c, of "\<lparr>req_variables = NoVariables, req_retries = Some 2\<rparr>"
         "\<lambda>k. Resolves sample_unavailable" sample_plain_operation "\<lparr>calls = 0\<rparr>" sample_externals]
       retries_bound_transport_calls[OF c, of "\<lparr>req_variables = NoVariables, req_retries = Some 2\<rparr>"
         "\<lambda>k. Resolves sample_unavailable" sample_defer_operation "\<lparr>calls = 0\<rparr>" sample_externals]
  show ?thesis using c by (simp add: e4 e2)
qed

text \<open>
  Claim C6, as amended. In the retry executor a response with status 429 or 503 (like a
  thrown call) is retried while \<open>attempt \<le> maxRetries\<close>; any other response is returned at
  once. When every attempt before the last permitted one was retried, the outcome of the
  last attempt decides: a response is returned (not thrown) whatever its status, and a
  thrown call makes the executor throw an error whose message is the client label
  followed by \<open>Attempted maximum number of <maxRetries> network retries. Last message - \<close>
  and the last message when \<open>maxRetries > 0\<close>, and the formatted message alone when
  \<open>maxRetries = 0\<close>.
\<close>

theorem executor_retry_policy:
  "(retriable (customFetchApi (calls w)) \<and> attempt \<le> maxRetries \<longrightarrow>
      httpFetch customFetchApi attempt maxRetries w =
      httpFetch customFetchApi (attempt + 1) maxRetries (w\<lparr>calls := calls w + 1\<rparr>)) \<and>
   (customFetchApi (calls w) = Resolves r \<and> status r \<noteq> 429 \<and> status r \<noteq> 503 \<longrightarrow>
      httpFetch customFetchApi attempt maxRetries w = (Inr r, w\<lparr>calls := calls w + 1\<rparr>)) \<and>
   (0 \<le> maxRetries \<and> (\<forall>k < nat maxRetries. retriable (customFetchApi (calls w + k))) \<and>
    customFetchApi (calls w + nat maxRetries) = Resolves r \<longrightarrow>
      httpFetch customFetchApi 1 maxRetries w = (Inr r, w\<lparr>calls := calls w + nat maxRetries + 1\<rparr>)) \<and>
   (0 \<le> maxRetries \<and> (\<forall>k < nat maxRetries. retriable (customFetchApi (calls w + k))) \<and>
    customFetchApi (calls w + nat maxRetries) = Rejects msg \<longrightarrow>
      httpFetch customFetchApi 1 maxRetries w =
        (Inl (Error (if maxRetries > 0
                     then ''GraphQL Client: Attempted maximum number of '' @ string_of_int maxRetries @
                          '' network retries. Last message - '' @ msg
                     else formatErrorMessage msg) NoCause),
         w\<lparr>calls := calls w + nat maxRetries + 1\<rparr>))"
proof -
  have run: "httpFetch customFetchApi 1 maxRetries w =
      (final_result maxRetries (customFetchApi (calls w + nat maxRetries)),
       w\<lparr>calls := calls w + nat maxRetries + 1\<rparr>)"
    if "0 \<le> maxRetries" "\<forall>k < nat maxRetries. retriable (customFetchApi (calls w + k))"
  proof -
    from that have "httpFetch customFetchApi 1 maxRetries w =
        httpFetch customFetchApi (1 + int (nat maxRetries)) maxRetries (w\<lparr>calls := calls w + nat maxRetries\<rparr>)"
      by (intro httpFetch_retries) auto
    also have "\<dots> = (final_result maxRetries (customFetchApi (calls (w\<lparr>calls := calls w + nat maxRetries\<rparr>))),
        w\<lparr>calls := calls w + nat maxRetries\<rparr>\<lparr>calls := calls (w\<lparr>calls := calls w + nat maxRetries\<rparr>) + 1\<rparr>)"
      using that(1) by (intro httpFetch_last) simp
    finally show ?thesis by simp
  qed
  show ?thesis
    using run by (auto simp: httpFetch_retry httpFetch_not_retriable)
qed

theorem executor_retry_policy_witness:
  "retriable (Resolves sample_unavailable) \<and>
   httpFetch (\<lambda>k. Resolves sample_unavailable) 1 1 \<lparr>calls = 0\<rparr> =
     httpFetch (\<lambda>k. Resolves sample_unavailable) 2 1 \<lparr>calls = 1\<rparr> \<and>
   httpFetch (\<lambda>k. Resolves sample_server_error) 1 2 \<lparr>calls = 0\<rparr> =
     (Inr sample_server_error, \<lparr>calls = 1\<rparr>) \<and>
   httpFetch (\<lambda>k. Resolves sample_unavailable) 1 1 \<lparr>calls = 0\<rparr> =
     (Inr sample_unavailable, \<lparr>calls = 2\<rparr>) \<and>
   httpFetch (\<lambda>k. Rejects ''aborted'') 1 2 \<lparr>calls = 0\<rparr> =
     (Inl (Error ''GraphQL Client: Attempted maximum number of 2 network retries. Last message - aborted''
             NoCause), \<lparr>calls = 3\<rparr>)"
proof -
  have s2: "string_of_int 2 = ''2''" by code_simp
  have u: "status sample_unavailable = 503" and e: "status sample_server_error = 500"
    by (simp_all add: sample_unavailable_def sample_server_error_def sample_response_def)
  note unavailable = executor_retry_policy[of "\<lambda>k. Resolves sample_unavailable" "\<lparr>calls = 0\<rparr>" 1 1
         sample_unavailable "''aborted''"]
  note server_error = executor_retry_policy[of "\<lambda>k. Resolves sample_server_error" "\<lparr>calls = 0\<rparr>" 1 2
         sample_server_error "''aborted''"]
  note aborted = executor_retry_policy[of "\<lambda>k. Rejects ''aborted''" "\<lparr>calls = 0\<rparr>" 1 2
         sample_unavailable "''aborted''"]
  have a: "httpFetch (\<lambda>k. Resolves sample_unavailable) 1 1 \<lparr>calls = 0\<rparr> =
     httpFetch (\<lambda>k. Resolves sample_unavailable) 2 1 \<lparr>calls = 1\<rparr>"
    using unavailable[THEN conjunct1] by (simp add: u)
  have b: "httpFetch (\<lambda>k. Resolves sample_server_error) 1 2 \<lparr>calls = 0\<rparr> =
     (Inr sample_server_error, \<lparr>calls = 1\<rparr>)"
    using server_error[THEN conjunct2, THEN conjunct1] by (simp add: e)
  have c: "httpFetch (\<lambda>k. Resolves sample_unavailable) 1 1 \<lparr>calls = 0\<rparr> =
     (Inr sample_unavailable, \<lparr>calls = 2\<rparr>)"
    using unavailable[THEN conjunct2, THEN conjunct2, THEN conjunct1] by (simp add: u)
  have d: "httpFetch (\<lambda>k. Rejects ''aborted'') 1 2 \<lparr>calls = 0\<rparr> =
     (Inl (Error ''GraphQL Client: Attempted maximum number of 2 network retries. Last message - aborted''
             NoCause), \<lparr>calls = 3\<rparr>)"
    using aborted[THEN conjunct2, THEN conjunct2, THEN conjunct2] by (simp add: s2)
  have r: "retriable (Resolves sample_unavailable)" by (simp add: u)
  from r a b c d show ?thesis by blast
qed

text \<open>
  The claim as stated fails when no retry is allowed: every attempt (the only one) throws,
  and the error of the executor is the label and the message, without the text
  \<open>Attempted maximum number of 0 network retries. Last message - \<close>.
\<close>

theorem executor_plain_error_counterexample:
  "httpFetch (\<lambda>k. Rejects ''aborted'') 1 0 \<lparr>calls = 0\<rparr> =
     (Inl (Error ''GraphQL Client: aborted'' NoCause), \<lparr>calls = 1\<rparr>) \<and>
   \<not> prefix ''Attempted maximum number of 0 network retries. Last message - ''
        ''GraphQL Client: aborted''"
  by (simp add: httpFetch_last formatErrorMessage_def CLIENT_def)

section \<open>Invalid retries at the entry points\<close>

lemma request_invalid:
  assumes "req_retries options = Some n" and "n < 0 \<or> 3 < n"
    and "JSON_stringify_body operation (req_variables options) = Inr envelope"
    and "\<not> DEFER_OPERATION_REGEX_test operation"
  shows "request config customFetchApi operation options w =
     (Returns (Fulfilled
        \<lparr>data = None, extensions = None,
         errors = Some \<lparr>networkStatusCode = None, message = Some (invalid_retries_message n),
                        graphQLErrors = None, err_response = None\<rparr>\<rparr>), w)"
  using assms(4) fetch_invalid[OF assms(1,2,3)]
  by (simp add: request_def await_def async_Inr)

lemma requestStream_invalid:
  assumes "req_retries options = Some n" and "n < 0 \<or> 3 < n"
    and "JSON_stringify_body operation (req_variables options) = Inr envelope"
    and "DEFER_OPERATION_REGEX_test operation"
  shows "requestStream ext config customFetchApi operation options w =
     (Returns (Fulfilled
        ([\<lparr>data = None, extensions = None,
           errors = Some \<lparr>networkStatusCode = None, message = Some (invalid_retries_message n),
                          graphQLErrors = None, err_response = None\<rparr>,
           hasNext = JBool False\<rparr>], None)), w)"
  using assms(4) fetch_invalid[OF assms(1,2,3)]
  by (simp add: requestStream_def await_def async_Inr failure_stream_def getKeyValueIfValid_def
                format_validation_message)

text \<open>
  Claim C8, as amended. For a call whose \<open>retries\<close> option is outside 0..3 and whose body
  can be written (\<open>JSON.stringify\<close> does not throw for the variables): \<open>fetch\<close> returns a
  promise that is rejected with the validation message; \<open>request\<close>, for an operation
  without \<open>@defer\<close>, returns a promise that is fulfilled with an object whose \<open>errors\<close> holds
  that message alone; \<open>requestStream\<close>, for an operation with \<open>@defer\<close>, returns a promise
  that is fulfilled with a stream whose one snapshot holds that message and
  \<open>hasNext: false\<close>. No call throws, and in each case the transport is not called.
\<close>

theorem invalid_retries_surface:
  assumes "req_retries options = Some n" and "n < 0 \<or> 3 < n"
    and "JSON_stringify_body operation (req_variables options) = Inr envelope"
  shows "fetch config customFetchApi operation options w =
           (Returns (Rejected (Error (invalid_retries_message n) NoCause)), w) \<and>
         (\<not> DEFER_OPERATION_REGEX_test operation \<longrightarrow>
            request config customFetchApi operation options w =
              (Returns (Fulfilled
                 \<lparr>data = None, extensions = None,
                  errors = Some \<lparr>networkStatusCode = None,
                                 message = Some (invalid_retries_message n),
                                 graphQLErrors = None, err_response = None\<rparr>\<rparr>), w)) \<and>
         (DEFER_OPERATION_REGEX_test operation \<longrightarrow>
            requestStream ext config customFetchApi operation options w =
              (Returns (Fulfilled
                 ([\<lparr>data = None, extensions = None,
                    errors = Some \<lparr>networkStatusCode = None,
                                   message = Some (invalid_retries_message n),
                                   graphQLErrors = None, err_response = None\<rparr>,
                    hasNext = JBool False\<rparr>], None)), w))"
  using fetch_invalid[OF assms] request_invalid[OF assms] requestStream_invalid[OF assms]
  by simp

theorem invalid_retries_surface_witness:
  "req_retries \<lparr>req_variables = NoVariables, req_retries = Some 4\<rparr> = Some 4 \<and>
   JSON_stringify_body sample_plain_operation
       (req_variables \<lparr>req_variables = NoVariables, req_retries = Some 4\<rparr>) =
     Inr (JObj [(''query'', JStr sample_plain_operation)]) \<and>
   fetch \<lparr>cfg_retries = 0\<rparr> (\<lambda>k. Resolves sample_response) sample_plain_operation
       \<lparr>req_variables = NoVariables, req_retries = Some 4\<rparr> \<lparr>calls = 0\<rparr> =
     (Returns (Rejected (Error ''GraphQL Client: The provided \"retries\" value (4) is invalid - it cannot be less than 0 or greater than 3'' NoCause)),
      \<lparr>calls = 0\<rparr>) \<and>
   request \<lparr>cfg_retries = 0\<rparr> (\<lambda>k. Resolves sample_response) sample_plain_operation
       \<lparr>req_variables = NoVariables, req_retries = Some 4\<rparr> \<lparr>calls = 0\<rparr> =
     (Returns (Fulfilled
        \<lparr>data = None, extensions = None,
         errors = Some \<lparr>networkStatusCode = None,
                        message = Some ''GraphQL Client: The provided \"retries\" value (4) is invalid - it cannot be less than 0 or greater than 3'',
                        graphQLErrors = None, err_response = None\<rparr>\<rparr>), \<lparr>calls = 0\<rparr>) \<and>
   requestStream sample_externals \<lparr>cfg_retries = 0\<rparr> (\<lambda>k. Resolves sample_response)
       sample_defer_operation \<lparr>req_variables = NoVariables, req_retries = Some 4\<rparr> \<lparr>calls = 0\<rparr> =
     (Returns (Fulfilled
        ([\<lparr>data = None, extensions = None,
           errors = Some \<lparr>networkStatusCode = None,
                          message = Some ''GraphQL Client: The provided \"retries\" value (4) is invalid - it cannot be less than 0 or greater than 3'',
                          graphQLErrors = None, err_response = None\<rparr>,
           hasNext = JBool False\<rparr>], None)), \<lparr>calls = 0\<rparr>)"
proof -
  have m: "invalid_retries_message 4 =
     ''GraphQL Client: The provided \"retries\" value (4) is invalid - it cannot be less than 0 or greater than 3''"
    by code_simp
  have r: "req_retries \<lparr>req_variables = NoVariables, req_retries = Some 4\<rparr> = Some 4" by simp
  have i: "(4::int) < 0 \<or> 3 < (4::int)" by simp
  have s1: "JSON_stringify_body sample_plain_operation
       (req_variables \<lparr>req_variables = NoVariables, req_retries = Some 4\<rparr>) =
     Inr (JObj [(''query'', JStr sample_plain_operation)])"
    by (simp add: JSON_stringify_body_def)
  have s2: "JSON_stringify_body sample_defer_operation
       (req_variables \<lparr>req_variables = NoVariables, req_retries = Some 4\<rparr>) =
     Inr (JObj [(''query'', JStr sample_defer_operation)])"
    by (simp add: JSON_stringify_body_def)
  from invalid_retries_surface[OF r i s1, of "\<lparr>cfg_retries = 0\<rparr>"
         "\<lambda>k. Resolves sample_response" "\<lparr>calls = 0\<rparr>" sample_externals]
       invalid_retries_surface[OF r i s2, of "\<lparr>cfg_retries = 0\<rparr>"
         "\<lambda>k. Resolves sample_response" "\<lparr>calls = 0\<rparr>" sample_externals]
       sample_plain_no_match sample_defer_matches s1
  show ?thesis by (simp add: m)
qed

text \<open>
  The claim as stated fails for \<open>request\<close>: called with \<open>retries: -1\<close> it does not throw, and
  its promise is not rejected; the promise is fulfilled with an object whose \<open>errors\<close> holds
  the validation message.
\<close>

theorem request_invalid_retries_counterexample:
  "request \<lparr>cfg_retries = 0\<rparr> (\<lambda>k. Resolves sample_response) sample_plain_operation
       \<lparr>req_variables = NoVariables, req_retries = Some (- 1)\<rparr> \<lparr>calls = 0\<rparr> =
     (Returns (Fulfilled
        \<lparr>data = None, extensions = None,
         errors = Some \<lparr>networkStatusCode = None,
                        message = Some ''GraphQL Client: The provided \"retries\" value (-1) is invalid - it cannot be less than 0 or greater than 3'',
                        graphQLErrors = None, err_response = None\<rparr>\<rparr>), \<lparr>calls = 0\<rparr>)"
proof -
  have m: "invalid_retries_message (- 1) =
     ''GraphQL Client: The provided \"retries\" value (-1) is invalid - it cannot be less than 0 or greater than 3''"
    by code_simp
  have s: "JSON_stringify_body sample_plain_operation
       (req_variables \<lparr>req_variables = NoVariables, req_retries = Some (- 1)\<rparr>) =
     Inr (JObj [(''query'', JStr sample_plain_operation)])"
    by (simp add: JSON_stringify_body_def)
  from request_invalid[of "\<lparr>req_variables = NoVariables, req_retries = Some (- 1)\<rparr>" "- 1"
         sample_plain_operation _ "\<lparr>cfg_retries = 0\<rparr>" "\<lambda>k. Resolves sample_response"
         "\<lparr>calls = 0\<rparr>", OF _ _ s]
       sample_plain_no_match
  show ?thesis by (simp add: m)
qed

section \<open>The response of request\<close>

lemma format_gql_api_error:
  "formatErrorMessage GQL_API_ERROR =
   ''GraphQL Client: An error occurred while fetching from the API. Review 'graphQLErrors' for details.''"
  by (simp add: formatErrorMessage_def CLIENT_def GQL_API_ERROR_def)

lemma format_no_data_error:
  "formatErrorMessage NO_DATA_OR_ERRORS_ERROR =
   ''GraphQL Client: An unknown error has occurred. The API did not return a data object or any errors in its response.''"
  by (simp add: formatErrorMessage_def CLIENT_def NO_DATA_OR_ERRORS_ERROR_def)

lemma format_unexpected_content_type:
  "formatErrorMessage (UNEXPECTED_CONTENT_TYPE_ERROR @ '' '' @ contentType) =
   ''GraphQL Client: Response returned unexpected Content-Type: '' @ contentType"
  by (simp add: formatErrorMessage_def CLIENT_def UNEXPECTED_CONTENT_TYPE_ERROR_def)

lemma processJSONResponse_payload:
  assumes "json_body r = Inr payload" and "payload \<noteq> JNull" and "payload \<noteq> JUndefined"
  shows "processJSONResponse r =
     Returns (Fulfilled
       \<lparr>data = (if truthy (get_prop payload ''data'') \<and> get_prop payload ''data'' \<noteq> JObj []
                then Some (get_prop payload ''data'') else None),
        extensions = (if truthy (get_prop payload ''extensions'') \<and>
                         get_prop payload ''extensions'' \<noteq> JObj []
                      then Some (get_prop payload ''extensions'') else None),
        errors =
          (if truthy (get_prop payload ''errors'') \<or> \<not> truthy (get_prop payload ''data'') then
             Some \<lparr>networkStatusCode = Some (status r),
                   message = Some
                     (if truthy (get_prop payload ''errors'')
                      then ''GraphQL Client: An error occurred while fetching from the API. Review 'graphQLErrors' for details.''
                      else ''GraphQL Client: An unknown error has occurred. The API did not return a data object or any errors in its response.''),
                   graphQLErrors =
                     (if truthy (get_prop payload ''errors'') \<and> get_prop payload ''errors'' \<noteq> JObj []
                      then Some (get_prop payload ''errors'') else None),
                   err_response = Some r\<rparr>
           else None)\<rparr>)"
  using assms
  by (simp add: processJSONResponse_def async_Inr Let_def getKeyValueIfValid_def
                format_gql_api_error format_no_data_error)

lemma processJSONResponse_not_json:
  "json_body r = Inl msg \<Longrightarrow> processJSONResponse r = Returns (Rejected (Error msg NoCause))"
  by (simp add: processJSONResponse_def async_Inl)

lemma processJSONResponse_null:
  "json_body r = Inr JNull \<or> json_body r = Inr JUndefined \<Longrightarrow>
   processJSONResponse r = Returns (Rejected TypeError)"
  by (auto simp: processJSONResponse_def async_Inl)

lemma request_json:
  assumes "\<not> DEFER_OPERATION_REGEX_test operation"
    and "fetch config customFetchApi operation options w = (Returns (Fulfilled r), w')"
    and "ok r" and "js_includes (content_type_or_empty r) ''application/json''"
  shows "request config customFetchApi operation options w = (processJSONResponse r, w')"
proof -
  have "async (await (processJSONResponse r)) = processJSONResponse r"
    by (simp add: processJSONResponse_def)
  with assms show ?thesis
    by (simp add: request_def Let_def CONTENT_TYPES_json_def await_def)
qed

text \<open>
  Claim C1, as amended. For a response that \<open>fetch\<close> returned to \<open>request\<close>: when it is not
  ok, the result is an object whose \<open>errors\<close> has the status, the label-prefixed status
  text and the response; when it is ok and its content type does not include
  \<open>application/json\<close>, the result is the unexpected-content-type error object; otherwise
  the body is read as JSON. When the read fails, the promise of \<open>request\<close> is rejected
  with its error, and when the body is \<open>null\<close>, with a \<open>TypeError\<close>. For any other body
  the result has \<open>data\<close> when the payload's \<open>data\<close> is truthy and not an empty object,
  \<open>extensions\<close> likewise, and \<open>errors\<close> exactly when the payload's \<open>errors\<close> is truthy or its
  \<open>data\<close> is falsy (absent, \<open>null\<close>, \<open>false\<close>, \<open>0\<close> or the empty string), with the status, the
  message for the case, \<open>graphQLErrors\<close> when the payload's \<open>errors\<close> is truthy and not an
  empty object, and the response.
\<close>

theorem request_classifies_response:
  assumes "\<not> DEFER_OPERATION_REGEX_test operation"
    and "fetch config customFetchApi operation options w = (Returns (Fulfilled r), w')"
  shows "(\<not> ok r \<longrightarrow>
            request config customFetchApi operation options w =
              (Returns (Fulfilled
                 \<lparr>data = None, extensions = None,
                  errors = Some \<lparr>networkStatusCode = Some (status r),
                                 message = Some (formatErrorMessage (statusText r)),
                                 graphQLErrors = None, err_response = Some r\<rparr>\<rparr>), w')) \<and>
         (ok r \<and> \<not> js_includes (content_type_or_empty r) ''application/json'' \<longrightarrow>
            request config customFetchApi operation options w =
              (Returns (Fulfilled
                 \<lparr>data = None, extensions = None,
                  errors = Some \<lparr>networkStatusCode = Some (status r),
                                 message = Some (''GraphQL Client: Response returned unexpected Content-Type: '' @
                                                 content_type_or_empty r),
                                 graphQLErrors = None, err_response = Some r\<rparr>\<rparr>), w')) \<and>
         (ok r \<and> js_includes (content_type_or_empty r) ''application/json'' \<and>
          json_body r = Inl msg \<longrightarrow>
            request config customFetchApi operation options w =
              (Returns (Rejected (Error msg NoCause)), w')) \<and>
         (ok r \<and> js_includes (content_type_or_empty r) ''application/json'' \<and>
          (json_body r = Inr JNull \<or> json_body r = Inr JUndefined) \<longrightarrow>
            request config customFetchApi operation options w =
              (Returns (Rejected TypeError), w')) \<and>
         (ok r \<and> js_includes (content_type_or_empty r) ''application/json'' \<and>
          json_body r = Inr payload \<and> payload \<noteq> JNull \<and> payload \<noteq> JUndefined \<longrightarrow>
            request config customFetchApi operation options w =
              (Returns (Fulfilled
                 \<lparr>data = (if truthy (get_prop payload ''data'') \<and> get_prop payload ''data'' \<noteq> JObj []
                          then Some (get_prop payload ''data'') else None),
                  extensions = (if truthy (get_prop payload ''extensions'') \<and>
                                   get_prop payload ''extensions'' \<noteq> JObj []
                                then Some (get_prop payload ''extensions'') else None),
                  errors =
                    (if truthy (get_prop payload ''errors'') \<or> \<not> truthy (get_prop payload ''data'') then
                       Some \<lparr>networkStatusCode = Some (status r),
                             message = Some
                               (if truthy (get_prop payload ''errors'')
                                then ''GraphQL Client: An error occurred while fetching from the API. Review 'graphQLErrors' for details.''
                                else ''GraphQL Client: An unknown error has occurred. The API did not return a data object or any errors in its response.''),
                             graphQLErrors =
                               (if truthy (get_prop payload ''errors'') \<and>
                                   get_prop payload ''errors'' \<noteq> JObj []
                                then Some (get_prop payload ''errors'') else None),
                             err_response = Some r\<rparr>
                     else None)\<rparr>), w'))"
proof (intro conjI impI)
  assume "\<not> ok r"
  with assms show "request config customFetchApi operation options w =
      (Returns (Fulfilled
         \<lparr>data = None, extensions = None,
          errors = Some \<lparr>networkStatusCode = Some (status r),
                         message = Some (formatErrorMessage (statusText r)),
                         graphQLErrors = None, err_response = Some r\<rparr>\<rparr>), w')"
    by (simp add: request_def Let_def await_def async_Inr)
next
  assume "ok r \<and> \<not> js_includes (content_type_or_empty r) ''application/json''"
  with assms show "request config customFetchApi operation options w =
      (Returns (Fulfilled
         \<lparr>data = None, extensions = None,
          errors = Some \<lparr>networkStatusCode = Some (status r),
                         message = Some (''GraphQL Client: Response returned unexpected Content-Type: '' @
                                         content_type_or_empty r),
                         graphQLErrors = None, err_response = Some r\<rparr>\<rparr>), w')"
    using format_unexpected_content_type[of "content_type_or_empty r"]
    by (simp add: request_def Let_def CONTENT_TYPES_json_def await_def async_Inr)
next
  assume a: "ok r \<and> js_includes (content_type_or_empty r) ''application/json'' \<and>
          json_body r = Inl msg"
  then have "request config customFetchApi operation options w = (processJSONResponse r, w')"
    using assms by (simp add: request_json)
  with a show "request config customFetchApi operation options w =
      (Returns (Rejected (Error msg NoCause)), w')"
    by (simp add: processJSONResponse_not_json)
next
  assume a: "ok r \<and> js_includes (content_type_or_empty r) ''application/json'' \<and>
          (json_body r = Inr JNull \<or> json_body r = Inr JUndefined)"
  then have "request config customFetchApi operation options w = (processJSONResponse r, w')"
    using assms by (simp add: request_json)
  moreover from a have "processJSONResponse r = Returns (Rejected TypeError)"
    by (intro processJSONResponse_null) simp
  ultimately show "request config customFetchApi operation options w =
      (Returns (Rejected TypeError), w')"
    by simp
next
  assume a: "ok r \<and> js_includes (content_type_or_empty r) ''application/json'' \<and>
          json_body r = Inr payload \<and> payload \<noteq> JNull \<and> payload \<noteq> JUndefined"
  then have "request config customFetchApi operation options w = (processJSONResponse r, w')"
    using assms by (simp add: request_json)
  moreover from a have "json_body r = Inr payload" "payload \<noteq> JNull" "payload \<noteq> JUndefined"
    by simp_all
  ultimately show "request config customFetchApi operation options w =
      (Returns (Fulfilled
         \<lparr>data = (if truthy (get_prop payload ''data'') \<and> get_prop payload ''data'' \<noteq> JObj []
                  then Some (get_prop payload ''data'') else None),
          extensions = (if truthy (get_prop payload ''extensions'') \<and>
                           get_prop payload ''extensions'' \<noteq> JObj []
                        then Some (get_prop payload ''extensions'') else None),
          errors =
            (if truthy (get_prop payload ''errors'') \<or> \<not> truthy (get_prop payload ''data'') then
               Some \<lparr>networkStatusCode = Some (status r),
                     message = Some
                       (if truthy (get_prop payload ''errors'')
                        then ''GraphQL Client: An error occurred while fetching from the API. Review 'graphQLErrors' for details.''
                        else ''GraphQL Client: An unknown error has occurred. The API did not return a data object or any errors in its response.''),
                     graphQLErrors =
                       (if truthy (get_prop payload ''errors'') \<and>
                           get_prop payload ''errors'' \<noteq> JObj []
                        then Some (get_prop payload ''errors'') else None),
                     err_response = Some r\<rparr>
             else None)\<rparr>), w')"
    using processJSONResponse_payload[of r payload] by simp
qed

lemma sample_fetch:
  "status r \<noteq> 429 \<Longrightarrow> status r \<noteq> 503 \<Longrightarrow>
   fetch \<lparr>cfg_retries = 0\<rparr> (\<lambda>k. Resolves r) operation
       \<lparr>req_variables = NoVariables, req_retries = None\<rparr> \<lparr>calls = 0\<rparr> =
     (Returns (Fulfilled r), \<lparr>calls = 1\<rparr>)"
  by (simp add: fetch_def JSON_stringify_body_def validateRetries_valid httpFetch_not_retriable
                async_Inr)

theorem request_classifies_response_witness:
  "\<not> DEFER_OPERATION_REGEX_test sample_plain_operation \<and>
   fetch \<lparr>cfg_retries = 0\<rparr> (\<lambda>k. Resolves sample_server_error) sample_plain_operation
       \<lparr>req_variables = NoVariables, req_retries = None\<rparr> \<lparr>calls = 0\<rparr> =
     (Returns (Fulfilled sample_server_error), \<lparr>calls = 1\<rparr>) \<and>
   request \<lparr>cfg_retries = 0\<rparr> (\<lambda>k. Resolves sample_server_error) sample_plain_operation
       \<lparr>req_variables = NoVariables, req_retries = None\<rparr> \<lparr>calls = 0\<rparr> =
     (Returns (Fulfilled
        \<lparr>data = None, extensions = None,
         errors = Some \<lparr>networkStatusCode = Some 500,
                        message = Some ''GraphQL Client: Internal Server Error'',
                        graphQLErrors = None, err_response = Some sample_server_error\<rparr>\<rparr>),
      \<lparr>calls = 1\<rparr>) \<and>
   request \<lparr>cfg_retries = 0\<rparr> (\<lambda>k. Resolves sample_html_response) sample_plain_operation
       \<lparr>req_variables = NoVariables, req_retries = None\<rparr> \<lparr>calls = 0\<rparr> =
     (Returns (Fulfilled
        \<lparr>data = None, extensions = None,
         errors = Some \<lparr>networkStatusCode = Some 200,
                        message = Some ''GraphQL Client: Response returned unexpected Content-Type: text/html'',
                        graphQLErrors = None, err_response = Some sample_html_response\<rparr>\<rparr>),
      \<lparr>calls = 1\<rparr>) \<and>
   request \<lparr>cfg_retries = 0\<rparr> (\<lambda>k. Resolves sample_not_json_response) sample_plain_operation
       \<lparr>req_variables = NoVariables, req_retries = None\<rparr> \<lparr>calls = 0\<rparr> =
     (Returns (Rejected (Error ''Unexpected token < in JSON'' NoCause)), \<lparr>calls = 1\<rparr>) \<and>
   request \<lparr>cfg_retries = 0\<rparr> (\<lambda>k. Resolves sample_null_body_response) sample_plain_operation
       \<lparr>req_variables = NoVariables, req_retries = None\<rparr> \<lparr>calls = 0\<rparr> =
     (Returns (Rejected TypeError), \<lparr>calls = 1\<rparr>) \<and>
   request \<lparr>cfg_retries = 0\<rparr> (\<lambda>k. Resolves sample_errors_response) sample_plain_operation
       \<lparr>req_variables = NoVariables, req_retries = None\<rparr> \<lparr>calls = 0\<rparr> =
     (Returns (Fulfilled
        \<lparr>data = Some (JObj [(''product'', JObj [(''title'', JStr ''product title'')])]),
         extensions = None,
         errors = Some \<lparr>networkStatusCode = Some 200,
                        message = Some ''GraphQL Client: An error occurred while fetching from the API. Review 'graphQLErrors' for details.'',
                        graphQLErrors = Some (JArr [JStr ''GQL error'']),
                        err_response = Some sample_errors_response\<rparr>\<rparr>),
      \<lparr>calls = 1\<rparr>)"
proof -
  note plain = sample_plain_no_match
  have f1: "fetch \<lparr>cfg_retries = 0\<rparr> (\<lambda>k. Resolves sample_server_error) sample_plain_operation
       \<lparr>req_variables = NoVariables, req_retries = None\<rparr> \<lparr>calls = 0\<rparr> =
     (Returns (Fulfilled sample_server_error), \<lparr>calls = 1\<rparr>)"
    by (rule sample_fetch) (simp_all add: sample_server_error_def sample_response_def)
  have f2: "fetch \<lparr>cfg_retries = 0\<rparr> (\<lambda>k. Resolves sample_html_response) sample_plain_operation
       \<lparr>req_variables = NoVariables, req_retries = None\<rparr> \<lparr>calls = 0\<rparr> =
     (Returns (Fulfilled sample_html_response), \<lparr>calls = 1\<rparr>)"
    by (rule sample_fetch) (simp_all add: sample_html_response_def sample_response_def)
  have f3: "fetch \<lparr>cfg_retries = 0\<rparr> (\<lambda>k. Resolves sample_errors_response) sample_plain_operation
       \<lparr>req_variables = NoVariables, req_retries = None\<rparr> \<lparr>calls = 0\<rparr> =
     (Returns (Fulfilled sample_errors_response), \<lparr>calls = 1\<rparr>)"
    by (rule sample_fetch) (simp_all add: sample_errors_response_def sample_response_def)
  have f4: "fetch \<lparr>cfg_retries = 0\<rparr> (\<lambda>k. Resolves sample_not_json_response) sample_plain_operation
       \<lparr>req_variables = NoVariables, req_retries = None\<rparr> \<lparr>calls = 0\<rparr> =
     (Returns (Fulfilled sample_not_json_response), \<lparr>calls = 1\<rparr>)"
    by (rule sample_fetch) (simp_all add: sample_not_json_response_def sample_response_def)
  have f5: "fetch \<lparr>cfg_retries = 0\<rparr> (\<lambda>k. Resolves sample_null_body_response) sample_plain_operation
       \<lparr>req_variables = NoVariables, req_retries = None\<rparr> \<lparr>calls = 0\<rparr> =
     (Returns (Fulfilled sample_null_body_response), \<lparr>calls = 1\<rparr>)"
    by (rule sample_fetch) (simp_all add: sample_null_body_response_def sample_response_def)
  have m1: "formatErrorMessage (statusText sample_server_error) = ''GraphQL Client: Internal Server Error''"
    by (simp add: sample_server_error_def sample_response_def formatErrorMessage_def CLIENT_def)
  have nok: "\<not> ok sample_server_error"
    by (simp add: sample_server_error_def sample_response_def)
  have html: "ok sample_html_response"
    "\<not> js_includes (content_type_or_empty sample_html_response) ''application/json''"
    "content_type_or_empty sample_html_response = ''text/html''"
    "status sample_html_response = 200"
    by code_simp+
  have errs: "ok sample_errors_response"
    "js_includes (content_type_or_empty sample_errors_response) ''application/json''"
    "json_body sample_errors_response =
       Inr (JObj [(''errors'', JArr [JStr ''GQL error'']),
                  (''data'', JObj [(''product'', JObj [(''title'', JStr ''product title'')])])])"
    "status sample_errors_response = 200"
    by code_simp+
  have notjson: "ok sample_not_json_response"
    "js_includes (content_type_or_empty sample_not_json_response) ''application/json''"
    "json_body sample_not_json_response = Inl ''Unexpected token < in JSON''"
    by code_simp+
  have null: "ok sample_null_body_response"
    "js_includes (content_type_or_empty sample_null_body_response) ''application/json''"
    "json_body sample_null_body_response = Inr JNull"
    by code_simp+
  have a: "request \<lparr>cfg_retries = 0\<rparr> (\<lambda>k. Resolves sample_server_error) sample_plain_operation
       \<lparr>req_variables = NoVariables, req_retries = None\<rparr> \<lparr>calls = 0\<rparr> =
     (Returns (Fulfilled
        \<lparr>data = None, extensions = None,
         errors = Some \<lparr>networkStatusCode = Some 500,
                        message = Some ''GraphQL Client: Internal Server Error'',
                        graphQLErrors = None, err_response = Some sample_server_error\<rparr>\<rparr>),
      \<lparr>calls = 1\<rparr>)"
    using request_classifies_response[OF plain f1, THEN conjunct1] nok m1
    by (simp add: sample_server_error_def sample_response_def)
  have b: "request \<lparr>cfg_retries = 0\<rparr> (\<lambda>k. Resolves sample_html_response) sample_plain_operation
       \<lparr>req_variables = NoVariables, req_retries = None\<rparr> \<lparr>calls = 0\<rparr> =
     (Returns (Fulfilled
        \<lparr>data = None, extensions = None,
         errors = Some \<lparr>networkStatusCode = Some 200,
                        message = Some ''GraphQL Client: Response returned unexpected Content-Type: text/html'',
                        graphQLErrors = None, err_response = Some sample_html_response\<rparr>\<rparr>),
      \<lparr>calls = 1\<rparr>)"
    using request_classifies_response[OF plain f2, THEN conjunct2, THEN conjunct1] html
    by simp
  have c: "request \<lparr>cfg_retries = 0\<rparr> (\<lambda>k. Resolves sample_not_json_response) sample_plain_operation
       \<lparr>req_variables = NoVariables, req_retries = None\<rparr> \<lparr>calls = 0\<rparr> =
     (Returns (Rejected (Error ''Unexpected token < in JSON'' NoCause)), \<lparr>calls = 1\<rparr>)"
    using request_classifies_response[OF plain f4, THEN conjunct2, THEN conjunct2, THEN conjunct1,
            of "''Unexpected token < in JSON''"]
          notjson
    by simp
  have d: "request \<lparr>cfg_retries = 0\<rparr> (\<lambda>k. Resolves sample_null_body_response) sample_plain_operation
       \<lparr>req_variables = NoVariables, req_retries = None\<rparr> \<lparr>calls = 0\<rparr> =
     (Returns (Rejected TypeError), \<lparr>calls = 1\<rparr>)"
    using request_classifies_response[OF plain f5, THEN conjunct2, THEN conjunct2, THEN conjunct2,
            THEN conjunct1]
          null
    by simp
  have e: "request \<lparr>cfg_retries = 0\<rparr> (\<lambda>k. Resolves sample_errors_response) sample_plain_operation
       \<lparr>req_variables = NoVariables, req_retries = None\<rparr> \<lparr>calls = 0\<rparr> =
     (Returns (Fulfilled
        \<lparr>data = Some (JObj [(''product'', JObj [(''title'', JStr ''product title'')])]),
         extensions = None,
         errors = Some \<lparr>networkStatusCode = Some 200,
                        message = Some ''GraphQL Client: An error occurred while fetching from the API. Review 'graphQLErrors' for details.'',
                        graphQLErrors = Some (JArr [JStr ''GQL error'']),
                        err_response = Some sample_errors_response\<rparr>\<rparr>),
      \<lparr>calls = 1\<rparr>)"
    using request_classifies_response[OF plain f3, THEN conjunct2, THEN conjunct2, THEN conjunct2,
            THEN conjunct2,
            of "JObj [(''errors'', JArr [JStr ''GQL error'']),
                      (''data'', JObj [(''product'', JObj [(''title'', JStr ''product title'')])])]"]
          errs
    by simp
  from plain f1 a b c d e show ?thesis by blast
qed

text \<open>
  The claim as stated fails for the body \<open>{"data": null}\<close>: the payload has a \<open>data\<close> field
  and no \<open>errors\<close> field, and \<open>request\<close> returns an object with \<open>errors\<close> populated (and
  without \<open>data\<close>).
\<close>

theorem request_null_data_counterexample:
  "has_field (JObj [(''data'', JNull)]) ''data'' \<and>
   \<not> has_field (JObj [(''data'', JNull)]) ''errors'' \<and>
   json_body sample_null_data_response = Inr (JObj [(''data'', JNull)]) \<and>
   request \<lparr>cfg_retries = 0\<rparr> (\<lambda>k. Resolves sample_null_data_response) sample_plain_operation
       \<lparr>req_variables = NoVariables, req_retries = None\<rparr> \<lparr>calls = 0\<rparr> =
     (Returns (Fulfilled
        \<lparr>data = None, extensions = None,
         errors = Some \<lparr>networkStatusCode = Some 200,
                        message = Some ''GraphQL Client: An unknown error has occurred. The API did not return a data object or any errors in its response.'',
                        graphQLErrors = None,
                        err_response = Some sample_null_data_response\<rparr>\<rparr>),
      \<lparr>calls = 1\<rparr>)"
proof -
  have f: "fetch \<lparr>cfg_retries = 0\<rparr> (\<lambda>k. Resolves sample_null_data_response) sample_plain_operation
       \<lparr>req_variables = NoVariables, req_retries = None\<rparr> \<lparr>calls = 0\<rparr> =
     (Returns (Fulfilled sample_null_data_response), \<lparr>calls = 1\<rparr>)"
    by (rule sample_fetch) (simp_all add: sample_null_data_response_def sample_response_def)
  have r: "ok sample_null_data_response"
    "js_includes (content_type_or_empty sample_null_data_response) ''application/json''"
    "status sample_null_data_response = 200"
    by code_simp+
  have j: "json_body sample_null_data_response = Inr (JObj [(''data'', JNull)])"
    by (simp add: sample_null_data_response_def)
  have p: "processJSONResponse sample_null_data_response =
     Returns (Fulfilled
       \<lparr>data = None, extensions = None,
        errors = Some \<lparr>networkStatusCode = Some 200,
                       message = Some ''GraphQL Client: An unknown error has occurred. The API did not return a data object or any errors in its response.'',
                       graphQLErrors = None,
                       err_response = Some sample_null_data_response\<rparr>\<rparr>)"
    using processJSONResponse_payload[OF j] r(3) by simp
  have "request \<lparr>cfg_retries = 0\<rparr> (\<lambda>k. Resolves sample_null_data_response) sample_plain_operation
       \<lparr>req_variables = NoVariables, req_retries = None\<rparr> \<lparr>calls = 0\<rparr> =
     (processJSONResponse sample_null_data_response, \<lparr>calls = 1\<rparr>)"
    using request_json[OF sample_plain_no_match f r(1,2)] .
  with p j show ?thesis by (simp add: has_field_def)
qed

section \<open>The incremental merger\<close>

text \<open>
  Claim C4, at the input where the code departs from it. A batch holds two payloads, the
  first with the extensions \<open>{"e":1}\<close> and the last with \<open>{"e":2}\<close>. After the batch the
  accumulator holds the extensions of the first payload, not those of the last. When the
  same two payloads arrive in two batches, the accumulator ends with those of the last.
\<close>

theorem extensions_of_first_payload_in_batch:
  "get_prop sample_first_payload ''extensions'' = JObj [(''e'', JNum 1)] \<and>
   get_prop sample_second_payload ''extensions'' = JObj [(''e'', JNum 2)] \<and>
   responseExtensions (fst (merge_batch sample_externals initial_merge_state
       [sample_first_text, sample_second_text])) = JObj [(''e'', JNum 1)] \<and>
   responseExtensions (fst (snd (merge_batches sample_externals initial_merge_state
       [[sample_first_text], [sample_second_text]]))) = JObj [(''e'', JNum 2)]"
  by code_simp

lemma next_extensions_none:
  "list_all (\<lambda>datum. \<not> truthy (d_extensions datum)) dataArray \<Longrightarrow>
   next_extensions dataArray previous = previous"
  by (induction dataArray) (auto simp: next_extensions_def)

lemma parse_bodies_last:
  "parse_bodies parse vs = Inr ps \<Longrightarrow> vs \<noteq> [] \<Longrightarrow> parse (last vs) = Inr (last ps)"
proof (induction vs arbitrary: ps)
  case Nil
  then show ?case by simp
next
  case (Cons v vs)
  from Cons.prems(1) obtain p ps' where p: "parse v = Inr p" "parse_bodies parse vs = Inr ps'" "ps = p # ps'"
    by (auto split: sum.splits)
  show ?case
  proof (cases "vs = []")
    case True
    with p show ?thesis by simp
  next
    case False
    from parse_bodies_length[OF p(2)] False have "ps' \<noteq> []" by auto
    with Cons.IH[OF p(2) False] False p(3) show ?thesis by simp
  qed
qed

lemma payload_datum_hasNext:
  "payload_datum payload = Inr d \<Longrightarrow> d_hasNext d = get_prop payload ''hasNext''"
  by (auto simp: payload_datum_def Let_def split: if_splits sum.splits option.splits)

lemma payload_data_last:
  "payload_data ps = Inr ds \<Longrightarrow> ps \<noteq> [] \<Longrightarrow> d_hasNext (last ds) = get_prop (last ps) ''hasNext''"
proof (induction ps arbitrary: ds)
  case Nil
  then show ?case by simp
next
  case (Cons p ps)
  from Cons.prems(1) obtain d ds' where d: "payload_datum p = Inr d" "payload_data ps = Inr ds'" "ds = d # ds'"
    by (auto split: sum.splits)
  show ?case
  proof (cases "ps = []")
    case True
    with d show ?thesis by (simp add: payload_datum_hasNext)
  next
    case False
    from payload_data_length[OF d(2)] False have "ds' \<noteq> []" by auto
    with Cons.IH[OF d(2) False] False d(3) show ?thesis by simp
  qed
qed

lemma last_hasNext_Inr:
  "last_hasNext dataArray = Inr h \<Longrightarrow> dataArray \<noteq> [] \<and> h = d_hasNext (last dataArray)"
proof (cases "dataArray = []")
  case True
  moreover assume "last_hasNext dataArray = Inr h"
  ultimately show ?thesis by (simp add: last_hasNext_def js_slice_def)
next
  case False
  moreover assume "last_hasNext dataArray = Inr h"
  ultimately show ?thesis by (simp add: last_hasNext_def slice_last)
qed

lemma merge_batch_snapshot:
  assumes "merge_batch ext st chunkBodies = (st', Inr snapshot)"
  shows "errors snapshot = None \<and> chunkBodies \<noteq> [] \<and>
         (\<exists>payload. JSON_parse ext (last chunkBodies) = Inr payload \<and>
                     streamHasNext st' = get_prop payload ''hasNext'')"
proof -
  from assms obtain payloads where ps: "parse_bodies (JSON_parse ext) chunkBodies = Inr payloads"
    by (auto simp: merge_batch_def split: sum.splits)
  with assms obtain dataArray where ds: "payload_data payloads = Inr dataArray"
    by (auto simp: merge_batch_def split: sum.splits)
  with assms ps obtain h where h: "last_hasNext dataArray = Inr h"
    by (auto simp: merge_batch_def Let_def split: sum.splits)
  from assms ps ds h have st': "streamHasNext st' = h" and e: "errors snapshot = None"
    by (auto simp: merge_batch_def Let_def split: sum.splits if_splits)
  from last_hasNext_Inr[OF h] have ne: "dataArray \<noteq> []" and hl: "h = d_hasNext (last dataArray)"
    by simp_all
  from ne payload_data_length[OF ds] have pne: "payloads \<noteq> []" by auto
  with parse_bodies_length[OF ps] have cne: "chunkBodies \<noteq> []" by auto
  from payload_data_last[OF ds pne] hl st'
  have "streamHasNext st' = get_prop (last payloads) ''hasNext''" by simp
  moreover from parse_bodies_last[OF ps cne]
  have "JSON_parse ext (last chunkBodies) = Inr (last payloads)" .
  ultimately show ?thesis using e cne by blast
qed

lemma merge_batches_completed:
  "merge_batches ext st batches = (snapshots, st', None) \<Longrightarrow>
   list_all (\<lambda>s. errors s = None) snapshots \<and>
   streamHasNext st' =
     (if batches = [] then streamHasNext st
      else (case JSON_parse ext (last (last batches)) of
              Inl msg \<Rightarrow> JUndefined
            | Inr payload \<Rightarrow> get_prop payload ''hasNext''))"
proof (induction batches arbitrary: st snapshots)
  case Nil
  then show ?case by simp
next
  case (Cons b bs)
  from Cons.prems obtain st1 s rest where
    step: "merge_batch ext st b = (st1, Inr s)" and
    tail: "merge_batches ext st1 bs = (rest, st', None)" and
    snaps: "snapshots = s # rest"
    by (auto split: prod.splits sum.splits)
  from merge_batch_snapshot[OF step] obtain payload where
    s: "errors s = None" and p: "JSON_parse ext (last b) = Inr payload"
      "streamHasNext st1 = get_prop payload ''hasNext''"
    by blast
  from Cons.IH[OF tail] s snaps p show ?case by (cases "bs = []") simp_all
qed

lemma termination_snapshot:
  "error_snapshot status_code st (Error ''Response stream terminated unexpectedly'' NoCause) =
     \<lparr>data = getKeyValueIfValid ''data'' (combinedData st),
      extensions = getKeyValueIfValid ''extensions'' (responseExtensions st),
      errors = Some \<lparr>networkStatusCode = Some status_code,
                     message = Some ''GraphQL Client: Response stream terminated unexpectedly'',
                     graphQLErrors = None, err_response = None\<rparr>,
      hasNext = JBool False\<rparr>"
  by (simp add: error_snapshot_def formatErrorMessage_def CLIENT_def getKeyValueIfValid_def)

text \<open>
  Claim C3, as amended. When the body was read to its end and every batch was merged
  without an error (no parse failure, no GraphQL errors, a non-empty combined data), the
  stream yields the snapshots of the batches, none of which has \<open>errors\<close>, and then: if the
  \<open>hasNext\<close> of the last payload processed (\<open>true\<close> when there was none) is truthy, one
  last snapshot with the label-prefixed message "Response stream terminated
  unexpectedly", the status of the response, \<open>hasNext: false\<close> and the combined data and
  extensions collected so far; otherwise nothing more.
\<close>

theorem stream_end_snapshot:
  assumes "merge_batches ext initial_merge_state batches = (snapshots, st, None)"
  shows "iteratorResponse ext status_code (batches, None) =
           (snapshots @
              (if truthy (last_payload_hasNext ext batches) then
                 [\<lparr>data = getKeyValueIfValid ''data'' (combinedData st),
                   extensions = getKeyValueIfValid ''extensions'' (responseExtensions st),
                   errors = Some \<lparr>networkStatusCode = Some status_code,
                                  message = Some ''GraphQL Client: Response stream terminated unexpectedly'',
                                  graphQLErrors = None, err_response = None\<rparr>,
                   hasNext = JBool False\<rparr>]
               else []), None) \<and>
         list_all (\<lambda>s. errors s = None) snapshots"
proof -
  from merge_batches_completed[OF assms]
  have none: "list_all (\<lambda>s. errors s = None) snapshots"
    and h: "streamHasNext st = last_payload_hasNext ext batches"
    by (simp_all add: last_payload_hasNext_def initial_merge_state_def)
  from assms h have "iteratorResponse ext status_code (batches, None) =
      (snapshots @
         (if truthy (last_payload_hasNext ext batches)
          then [error_snapshot status_code st
                  (Error ''Response stream terminated unexpectedly'' NoCause)]
          else []), None)"
    by (simp add: iteratorResponse_def)
  with none show ?thesis by (simp add: termination_snapshot)
qed

theorem stream_end_snapshot_witness:
  "merge_batches sample_externals initial_merge_state [[sample_first_text]] =
     ([sample_first_snapshot], sample_first_state, None) \<and>
   truthy (last_payload_hasNext sample_externals [[sample_first_text]]) \<and>
   iteratorResponse sample_externals 200 ([[sample_first_text]], None) =
     ([sample_first_snapshot,
       \<lparr>data = Some (JObj [(''s'', JObj [(''a'', JNum 1)])]),
        extensions = Some (JObj [(''e'', JNum 1)]),
        errors = Some \<lparr>networkStatusCode = Some 200,
                       message = Some ''GraphQL Client: Response stream terminated unexpectedly'',
                       graphQLErrors = None, err_response = None\<rparr>,
        hasNext = JBool False\<rparr>], None) \<and>
   merge_batches sample_externals initial_merge_state [[sample_first_text], [sample_second_text]] =
     ([sample_first_snapshot, sample_second_snapshot], sample_second_state, None) \<and>
   \<not> truthy (last_payload_hasNext sample_externals [[sample_first_text], [sample_second_text]]) \<and>
   iteratorResponse sample_externals 200 ([[sample_first_text], [sample_second_text]], None) =
     ([sample_first_snapshot, sample_second_snapshot], None)"
proof -
  have m1: "merge_batches sample_externals initial_merge_state [[sample_first_text]] =
     ([sample_first_snapshot], sample_first_state, None)"
    by code_simp
  have h1: "truthy (last_payload_hasNext sample_externals [[sample_first_text]])"
    by code_simp
  have m2: "merge_batches sample_externals initial_merge_state
       [[sample_first_text], [sample_second_text]] =
     ([sample_first_snapshot, sample_second_snapshot], sample_second_state, None)"
    by code_simp
  have h2: "\<not> truthy (last_payload_hasNext sample_externals [[sample_first_text], [sample_second_text]])"
    by code_simp
  have d1: "getKeyValueIfValid ''data'' (combinedData sample_first_state) =
              Some (JObj [(''s'', JObj [(''a'', JNum 1)])])"
    and e1: "getKeyValueIfValid ''extensions'' (responseExtensions sample_first_state) =
              Some (JObj [(''e'', JNum 1)])"
    by (simp_all add: sample_first_state_def getKeyValueIfValid_def)
  from stream_end_snapshot[OF m1, of 200, THEN conjunct1] h1 d1 e1
  have a: "iteratorResponse sample_externals 200 ([[sample_first_text]], None) =
     ([sample_first_snapshot,
       \<lparr>data = Some (JObj [(''s'', JObj [(''a'', JNum 1)])]),
        extensions = Some (JObj [(''e'', JNum 1)]),
        errors = Some \<lparr>networkStatusCode = Some 200,
                       message = Some ''GraphQL Client: Response stream terminated unexpectedly'',
                       graphQLErrors = None, err_response = None\<rparr>,
        hasNext = JBool False\<rparr>], None)"
    by simp
  from stream_end_snapshot[OF m2, of 200, THEN conjunct1] h2
  have b: "iteratorResponse sample_externals 200 ([[sample_first_text], [sample_second_text]], None) =
     ([sample_first_snapshot, sample_second_snapshot], None)"
    by simp
  from m1 h1 a m2 h2 b show ?thesis by blast
qed

text \<open>
  The claim as stated fails for a stream of one part that carries GraphQL errors and
  \<open>hasNext: false\<close>: the parser yields the part, the last payload processed has \<open>hasNext\<close>
  false, and the stream ends with an error snapshot (the one for GraphQL errors).
\<close>

theorem stream_errors_snapshot_counterexample:
  "readStreamChunk [sample_errors_chunk] None sample_boundary = ([[sample_errors_text]], None) \<and>
   last_payload_hasNext sample_externals [[sample_errors_text]] = JBool False \<and>
   iteratorResponse sample_externals 200 ([[sample_errors_text]], None) =
     ([\<lparr>data = None, extensions = None,
        errors = Some \<lparr>networkStatusCode = Some 200,
                       message = Some ''GraphQL Client: An error occurred while fetching from the API. Review 'graphQLErrors' for details.'',
                       graphQLErrors = Some (JArr [JStr ''E'']), err_response = None\<rparr>,
        hasNext = JBool False\<rparr>], None)"
  by code_simp

section \<open>Scenarios of the test suite\<close>

lemma scenario_stream_two_chunks:
  "requestStream sample_externals \<lparr>cfg_retries = 0\<rparr> (\<lambda>k. Resolves sample_multipart_response)
       sample_defer_operation \<lparr>req_variables = NoVariables, req_retries = None\<rparr> \<lparr>calls = 0\<rparr> =
     (Returns (Fulfilled ([sample_first_snapshot, sample_second_snapshot], None)), \<lparr>calls = 1\<rparr>)"
  by code_simp

lemma scenario_retry_exhaustion_503:
  "request \<lparr>cfg_retries = 1\<rparr> (\<lambda>k. Resolves sample_unavailable) sample_plain_operation
       \<lparr>req_variables = NoVariables, req_retries = None\<rparr> \<lparr>calls = 0\<rparr> =
     (Returns (Fulfilled
        \<lparr>data = None, extensions = None,
         errors = Some \<lparr>networkStatusCode = Some 503,
                        message = Some ''GraphQL Client: Service Unavailable'',
                        graphQLErrors = None, err_response = Some sample_unavailable\<rparr>\<rparr>),
      \<lparr>calls = 2\<rparr>)"
  by code_simp

lemma scenario_aborted_throughout:
  "request \<lparr>cfg_retries = 0\<rparr> (\<lambda>k. Rejects ''The operation was aborted.'') sample_plain_operation
       \<lparr>req_variables = NoVariables, req_retries = Some 2\<rparr> \<lparr>calls = 0\<rparr> =
     (Returns (Fulfilled
        \<lparr>data = None, extensions = None,
         errors = Some \<lparr>networkStatusCode = None,
                        message = Some ''GraphQL Client: Attempted maximum number of 2 network retries. Last message - The operation was aborted.'',
                        graphQLErrors = None, err_response = None\<rparr>\<rparr>),
      \<lparr>calls = 3\<rparr>)"
  by code_simp

text \<open>
  Variables that cannot be written: the error of \<open>JSON.stringify\<close> comes before the
  validation of the retries, and the transport is not called.
\<close>

lemma scenario_bigint_variables:
  "fetch \<lparr>cfg_retries = 0\<rparr> (\<lambda>k. Resolves sample_response) sample_plain_operation
       \<lparr>req_variables = sample_bigint_variables, req_retries = Some 4\<rparr> \<lparr>calls = 0\<rparr> =
     (Returns (Rejected (Error ''Do not know how to serialize a BigInt'' NoCause)), \<lparr>calls = 0\<rparr>)"
  by (simp add: fetch_def JSON_stringify_body_def sample_bigint_variables_def async_Inl)

end
